theory Spec2Isabelle
  imports Complex_Main
begin

section \<open>Python values shared by the components\<close>

text \<open>
  An exception object is its class name together with the text that \<^verbatim>\<open>str(e)\<close> gives.
  Every raise in the source is a value \<open>Inl e\<close> of the result type \<open>pyexc + 'a\<close>; a normal
  return is \<open>Inr v\<close>. The handlers of the source are all \<^verbatim>\<open>except Exception\<close>, so \<open>pyexc\<close>
  stands for the instances of \<^verbatim>\<open>Exception\<close>; what is raised outside that class (a
  keyboard interrupt, a cancellation) passes every handler and is not modelled.
\<close>

datatype pyexc = PyExc (exc_class: string) (exc_str: string)

type_synonym 'a outcome = "pyexc + 'a"

text \<open>\<^verbatim>\<open>str(x)\<close> of a variable that holds either \<^verbatim>\<open>None\<close> or an exception.\<close>

fun str_opt_exc :: "pyexc option \<Rightarrow> string" where
  "str_opt_exc None = ''None''"
| "str_opt_exc (Some e) = exc_str e"

section \<open>Backoff retrier (src/utils/retry.py)\<close>

text \<open>
  \<^verbatim>\<open>retry_with_backoff(func, max_attempts, initial_delay, max_delay, backoff_factor)\<close>.
  The awaited operation acts on an outside world \<open>'w\<close> and either raises or returns.
  The run records the outcome of every invocation of \<^verbatim>\<open>func\<close> and the argument of every
  \<^verbatim>\<open>asyncio.sleep\<close>, in order. Delays are Python floats; they are modelled as reals.
\<close>

record ('a, 'w) retry_run =
  env_state :: 'w
  attempts_log :: "'a outcome list"
  sleep_log :: "real list"

text \<open>The three statements through which the function can be left.\<close>

datatype exit_point = LoopReturn | LoopReraise | TrailingRaise

text \<open>
  \<^verbatim>\<open>raise last_exception\<close>: raising \<^verbatim>\<open>None\<close> is itself a \<^verbatim>\<open>TypeError\<close> in Python 3.
\<close>

fun raise_value :: "pyexc option \<Rightarrow> pyexc" where
  "raise_value None = PyExc ''TypeError'' ''exceptions must derive from BaseException''"
| "raise_value (Some e) = e"

text \<open>
  The body of \<^verbatim>\<open>for attempt in range(1, max_attempts + 1)\<close>, by recursion over the
  attempt numbers still to run; the empty list is the loop's normal end, followed by the
  trailing \<^verbatim>\<open>raise last_exception\<close>.
\<close>

fun retry_loop ::
  "('w \<Rightarrow> 'a outcome \<times> 'w) \<Rightarrow> int \<Rightarrow> real \<Rightarrow> real \<Rightarrow> int list \<Rightarrow> real \<Rightarrow> pyexc option
    \<Rightarrow> ('a, 'w) retry_run \<Rightarrow> (exit_point \<times> 'a outcome) \<times> ('a, 'w) retry_run" where
  "retry_loop func max_attempts max_delay backoff_factor [] delay last_exception s =
     ((TrailingRaise, Inl (raise_value last_exception)), s)"
| "retry_loop func max_attempts max_delay backoff_factor (attempt # rest) delay last_exception s =
     (case func (env_state s) of
        (Inr result, w) \<Rightarrow>
          ((LoopReturn, Inr result),
           s\<lparr>env_state := w, attempts_log := attempts_log s @ [Inr result]\<rparr>)
      | (Inl e, w) \<Rightarrow>
          (let s1 = s\<lparr>env_state := w, attempts_log := attempts_log s @ [Inl e]\<rparr> in
           if attempt = max_attempts then ((LoopReraise, Inl e), s1)
           else retry_loop func max_attempts max_delay backoff_factor rest
                  (min (delay * backoff_factor) max_delay) (Some e)
                  (s1\<lparr>sleep_log := sleep_log s1 @ [delay]\<rparr>)))"

definition retry_with_backoff ::
  "('w \<Rightarrow> 'a outcome \<times> 'w) \<Rightarrow> int \<Rightarrow> real \<Rightarrow> real \<Rightarrow> real \<Rightarrow> 'w
    \<Rightarrow> (exit_point \<times> 'a outcome) \<times> ('a, 'w) retry_run" where
  "retry_with_backoff func max_attempts initial_delay max_delay backoff_factor w =
     retry_loop func max_attempts max_delay backoff_factor [1..max_attempts] initial_delay None
       \<lparr>env_state = w, attempts_log = [], sleep_log = []\<rparr>"

text \<open>An operation that fails on its first two invocations and succeeds from the third on;
  its world is the number of invocations so far.\<close>

definition fails_twice :: "nat \<Rightarrow> string outcome \<times> nat" where
  "fails_twice n = (if n < 2 then Inl (PyExc ''ConnectError'' ''down'') else Inr ''ok'', Suc n)"

definition always_fails :: "nat \<Rightarrow> string outcome \<times> nat" where
  "always_fails n = (Inl (PyExc ''ConnectError'' ''down''), Suc n)"

section \<open>LLM access layer (src/services/llm.py)\<close>

text \<open>
  A provider is its \<^verbatim>\<open>generate_response\<close> capability: given the request it acts on the
  outside world \<open>'w\<close> (the network, the backend's quota) and raises or returns the text.
\<close>

record llm_request =
  prompt :: string
  system_message :: string
  max_tokens :: int
  temperature :: real

type_synonym 'w provider = "llm_request \<Rightarrow> 'w \<Rightarrow> string outcome \<times> 'w"

text \<open>
  The fields of \<^verbatim>\<open>LLMService\<close>, the outside world, and a log of the attempts made: the
  index of the provider that was called and what the call gave. The cursor
  \<^verbatim>\<open>current_provider_index\<close> starts at 0 and is only ever assigned a remainder modulo the
  provider count, so it is a natural number. One call of \<^verbatim>\<open>generate_response\<close> is modelled
  as it runs on its own, without another task using the same service in between.
\<close>

record 'w llm_service =
  providers :: "'w provider list"
  current_provider_index :: nat
  world :: 'w
  attempted :: "(nat \<times> string outcome) list"

text \<open>
  \<^verbatim>\<open>for i in range(len(self.providers))\<close>, by recursion over the remaining values of
  \<^verbatim>\<open>i\<close>. Reading \<^verbatim>\<open>self.providers[self.current_provider_index]\<close> out of range raises
  \<^verbatim>\<open>IndexError\<close> outside the \<^verbatim>\<open>try\<close>.
\<close>

fun provider_loop ::
  "llm_request \<Rightarrow> nat list \<Rightarrow> pyexc option \<Rightarrow> 'w llm_service \<Rightarrow> string outcome \<times> 'w llm_service" where
  "provider_loop req [] last_error s =
     (Inl (PyExc ''ValueError''
        (''All LLM providers failed. Last error: '' @ str_opt_exc last_error)), s)"
| "provider_loop req (i # rest) last_error s =
     (if current_provider_index s < length (providers s) then
        (case (providers s ! current_provider_index s) req (world s) of
           (Inr response, w) \<Rightarrow>
             (Inr response,
              s\<lparr>world := w,
                attempted := attempted s @ [(current_provider_index s, Inr response)],
                current_provider_index :=
                  (current_provider_index s + 1) mod length (providers s)\<rparr>)
         | (Inl e, w) \<Rightarrow>
             provider_loop req rest (Some e)
               (s\<lparr>world := w,
                  attempted := attempted s @ [(current_provider_index s, Inl e)],
                  current_provider_index :=
                    (current_provider_index s + 1) mod length (providers s)\<rparr>))
      else (Inl (PyExc ''IndexError'' ''list index out of range''), s))"

definition generate_response ::
  "llm_request \<Rightarrow> 'w llm_service \<Rightarrow> string outcome \<times> 'w llm_service" where
  "generate_response req s =
     (if providers s = [] then (Inl (PyExc ''ValueError'' ''No LLM providers available''), s)
      else provider_loop req [0..<length (providers s)] None s)"

text \<open>The attempts a call added to the log.\<close>

definition new_attempts :: "'w llm_service \<Rightarrow> 'w llm_service \<Rightarrow> (nat \<times> string outcome) list" where
  "new_attempts s s' = drop (length (attempted s)) (attempted s')"

text \<open>Sample providers over a world that counts the calls made: one that always fails
  with the given text, one that always answers.\<close>

definition failing_provider :: "string \<Rightarrow> nat provider" where
  "failing_provider msg req n = (Inl (PyExc ''RuntimeError'' msg), Suc n)"

definition answering_provider :: "string \<Rightarrow> nat provider" where
  "answering_provider txt req n = (Inr txt, Suc n)"

definition sample_request :: llm_request where
  "sample_request = \<lparr>prompt = ''p'', system_message = '''', max_tokens = 1000, temperature = 7/10\<rparr>"

definition sample_service :: "nat provider list \<Rightarrow> nat \<Rightarrow> nat llm_service" where
  "sample_service ps c = \<lparr>providers = ps, current_provider_index = c, world = 0, attempted = []\<rparr>"

section \<open>Evaluation engine (src/agent/evaluator.py)\<close>

subsection \<open>Python strings\<close>

text \<open>
  \<^verbatim>\<open>str(n)\<close> of an integer, in decimal; \<^verbatim>\<open>str.strip()\<close>, for the ASCII characters
  that \<^verbatim>\<open>str.isspace\<close> accepts (tab to carriage return, the four separators 28 to 31,
  and the space).
\<close>

fun str_of_nat :: "nat \<Rightarrow> string" where
  "str_of_nat n =
     (if n < 10 then [char_of (48 + n)]
      else str_of_nat (n div 10) @ [char_of (48 + n mod 10)])"

declare str_of_nat.simps [simp del]

definition str_of_int :: "int \<Rightarrow> string" where
  "str_of_int i = (if i < 0 then ''-'' @ str_of_nat (nat (- i)) else str_of_nat (nat i))"

definition py_isspace :: "char \<Rightarrow> bool" where
  "py_isspace c = (let n = (of_char c :: nat) in (9 \<le> n \<and> n \<le> 13) \<or> (28 \<le> n \<and> n \<le> 32))"

definition py_strip :: "string \<Rightarrow> string" where
  "py_strip s = rev (dropWhile py_isspace (rev (dropWhile py_isspace s)))"

subsection \<open>The browser\<close>

text \<open>
  What \<^verbatim>\<open>page.evaluate\<close> gives back is observed only through \<^verbatim>\<open>bool(result)\<close> and
  through its formatting in an f-string.
\<close>

record py_value =
  truthy :: bool
  shown :: string

text \<open>
  The \<^verbatim>\<open>reason\<close> entry of the dictionary a check returns: the key may be missing, it may
  hold \<^verbatim>\<open>None\<close>, or it holds a text.
\<close>

datatype py_reason = NoKey | NoneValue | Text string

record check_result =
  passed :: bool
  reason :: py_reason

text \<open>
  The Playwright browser and page as the evaluator uses them. Every operation acts on the
  state \<open>'p\<close> of the page and raises or returns. \<^verbatim>\<open>page.goto\<close> returns the response, which
  may be \<^verbatim>\<open>None\<close>, observed through its \<^verbatim>\<open>status\<close>. The text heuristics of
  \<^verbatim>\<open>_run_text_check\<close> read the page's content, title and elements; their verdict on a check
  is a capability of the page here, and may be any result or any exception.
\<close>

record 'p browser =
  new_page :: "'p outcome"
  goto :: "string \<Rightarrow> int \<Rightarrow> 'p \<Rightarrow> int option outcome \<times> 'p"
  wait_for_load_state :: "'p \<Rightarrow> unit outcome \<times> 'p"
  evaluate :: "string \<Rightarrow> 'p \<Rightarrow> py_value outcome \<times> 'p"
  run_text_check :: "string \<Rightarrow> 'p \<Rightarrow> check_result outcome \<times> 'p"
  take_screenshot :: "'p \<Rightarrow> string outcome \<times> 'p"
  close_page :: "'p \<Rightarrow> unit outcome \<times> 'p"

subsection \<open>Checks\<close>

text \<open>\<^verbatim>\<open>_run_js_check\<close>.\<close>

definition run_js_check :: "'p browser \<Rightarrow> 'p \<Rightarrow> string \<Rightarrow> check_result \<times> 'p" where
  "run_js_check br page js_expression =
     (case evaluate br js_expression page of
        (Inr result, page') \<Rightarrow>
          (\<lparr>passed = truthy result,
            reason = (if \<not> truthy result then Text (''JS expression returned: '' @ shown result)
                      else NoneValue)\<rparr>, page')
      | (Inl e, page') \<Rightarrow>
          (\<lparr>passed = False, reason = Text (''JS evaluation error: '' @ exc_str e)\<rparr>, page'))"

text \<open>\<^verbatim>\<open>_run_check\<close>: the \<^verbatim>\<open>js:\<close> prefix selects the expression check; an exception of
  either branch is the check's failure.\<close>

definition run_check :: "'p browser \<Rightarrow> 'p \<Rightarrow> string \<Rightarrow> check_result \<times> 'p" where
  "run_check br page check =
     (if take 3 check = ''js:'' then run_js_check br page (py_strip (drop 3 check))
      else (case run_text_check br check page of
              (Inr r, page') \<Rightarrow> (r, page')
            | (Inl e, page') \<Rightarrow> (\<lparr>passed = False, reason = Text (exc_str e)\<rparr>, page')))"

subsection \<open>\<^verbatim>\<open>evaluate_page\<close>\<close>

text \<open>
  The \<^verbatim>\<open>results\<close> dictionary. A failed entry is the check with the reason recorded for
  it (\<^verbatim>\<open>None\<close> or a text). The score is a Python float, modelled as a real.
\<close>

record eval_results =
  url :: string
  checks_passed :: "string list"
  checks_failed :: "(string \<times> string option) list"
  total_checks :: nat
  score :: real
  screenshot :: "string option"
  errors :: "string list"

text \<open>\<^verbatim>\<open>check_result.get('reason', 'Check failed')\<close>.\<close>

fun get_reason :: "py_reason \<Rightarrow> string option" where
  "get_reason NoKey = Some ''Check failed''"
| "get_reason NoneValue = None"
| "get_reason (Text t) = Some t"

text \<open>
  The state of one evaluation: the page, the results so far, and the checks that have
  been run against the page, in order.
\<close>

record 'p eval_state =
  page_of :: 'p
  results :: eval_results
  executed :: "string list"

text \<open>\<^verbatim>\<open>for check in checks\<close>.\<close>

fun run_checks :: "'p browser \<Rightarrow> string list \<Rightarrow> 'p eval_state \<Rightarrow> 'p eval_state" where
  "run_checks br [] st = st"
| "run_checks br (check # rest) st =
     (case run_check br (page_of st) check of
        (check_result, page') \<Rightarrow>
          run_checks br rest
            (st\<lparr>page_of := page',
                executed := executed st @ [check],
                results :=
                  (if passed check_result
                   then (results st)\<lparr>checks_passed := checks_passed (results st) @ [check]\<rparr>
                   else (results st)\<lparr>checks_failed := checks_failed (results st)
                          @ [(check, get_reason (reason check_result))]\<rparr>)\<rparr>))"

text \<open>
  \<^verbatim>\<open>evaluate_page(pages_url, checks, timeout)\<close> returns the results; the model returns
  with them the checks that were run. The two early returns leave from inside the outer
  \<^verbatim>\<open>try\<close>; an exception of \<^verbatim>\<open>new_page\<close>, of \<^verbatim>\<open>wait_for_load_state\<close> or of
  \<^verbatim>\<open>page.close\<close> reaches the outer handler, which appends its text to the errors.
\<close>

definition evaluate_page ::
  "'p browser \<Rightarrow> string \<Rightarrow> string list \<Rightarrow> int \<Rightarrow> eval_results \<times> string list" where
  "evaluate_page br pages_url checks timeout =
     (let results0 = \<lparr>url = pages_url, checks_passed = [], checks_failed = [],
                       total_checks = length checks, score = 0, screenshot = None, errors = []\<rparr>
      in case new_page br of
           Inl e \<Rightarrow> (results0\<lparr>errors := errors results0 @ [exc_str e]\<rparr>, [])
         | Inr page \<Rightarrow>
             (case goto br pages_url timeout page of
                (Inl e, page1) \<Rightarrow>
                  (results0\<lparr>errors := errors results0 @ [''Failed to load page: '' @ exc_str e]\<rparr>, [])
              | (Inr response, page1) \<Rightarrow>
                  if (case response of None \<Rightarrow> True | Some status \<Rightarrow> status \<noteq> 200) then
                    (results0\<lparr>errors := errors results0
                       @ [''Page returned status ''
                          @ (case response of None \<Rightarrow> ''None'' | Some status \<Rightarrow> str_of_int status)]\<rparr>,
                     [])
                  else
                    (case wait_for_load_state br page1 of
                       (Inl e, page2) \<Rightarrow> (results0\<lparr>errors := errors results0 @ [exc_str e]\<rparr>, [])
                     | (Inr u, page2) \<Rightarrow>
                         (let st = run_checks br checks
                                     \<lparr>page_of = page2, results = results0, executed = []\<rparr>;
                              results1 =
                                (if total_checks (results st) > 0
                                 then (results st)\<lparr>score :=
                                        real (length (checks_passed (results st)))
                                          / real (total_checks (results st))\<rparr>
                                 else results st);
                              results2 =
                                (case take_screenshot br (page_of st) of
                                   (Inr screenshot_bytes, page3) \<Rightarrow>
                                     (results1\<lparr>screenshot := Some screenshot_bytes\<rparr>, page3)
                                 | (Inl e, page3) \<Rightarrow> (results1, page3))
                          in case close_page br (snd results2) of
                               (Inl e, page4) \<Rightarrow>
                                 ((fst results2)\<lparr>errors := errors (fst results2) @ [exc_str e]\<rparr>,
                                  executed st)
                             | (Inr u, page4) \<Rightarrow> (fst results2, executed st)))))"

text \<open>
  A sample page whose state is the number of operations carried out on it. The site
  answers with the given status; \<^verbatim>\<open>js:\<close> expressions are truthy exactly when they read
  \<^verbatim>\<open>true\<close>; the text heuristics accept every check.
\<close>

definition sample_browser :: "int \<Rightarrow> nat browser" where
  "sample_browser status =
     \<lparr>new_page = Inr 0,
      goto = (\<lambda>u t n. (Inr (Some status), Suc n)),
      wait_for_load_state = (\<lambda>n. (Inr (), Suc n)),
      evaluate = (\<lambda>expr n. (Inr \<lparr>truthy = (expr = ''true''), shown = expr\<rparr>, Suc n)),
      run_text_check = (\<lambda>check n. (Inr \<lparr>passed = True, reason = Text ''Generic check passed''\<rparr>, Suc n)),
      take_screenshot = (\<lambda>n. (Inr ''png'', Suc n)),
      close_page = (\<lambda>n. (Inr (), Suc n))\<rparr>"

text \<open>The same site when the navigation times out.\<close>

definition unreachable_browser :: "nat browser" where
  "unreachable_browser =
     (sample_browser 200)\<lparr>goto := (\<lambda>u t n. (Inl (PyExc ''TimeoutError'' ''Timeout 30000ms exceeded''), Suc n))\<rparr>"

text \<open>A browser that cannot open a page.\<close>

definition closed_browser :: "nat browser" where
  "closed_browser =
     (sample_browser 200)\<lparr>new_page := Inl (PyExc ''Error'' ''Browser has been closed'')\<rparr>"

section \<open>Phase pipeline (src/agent/orchestrator.py, src/agent/tools.py, src/api/routes.py)\<close>

subsection \<open>Programs with state and exceptions\<close>

text \<open>
  A coroutine of the pipeline is a function from the state to an outcome and the new
  state. \<open>then_do\<close> is sequencing (an exception of the first part skips the second),
  \<open>try_finally\<close> and \<open>try_except\<close> are Python's statements: the \<^verbatim>\<open>finally\<close> block runs
  on every exit of the body, and an exception it raises itself replaces the body's
  outcome; the handler of \<^verbatim>\<open>except Exception as e\<close> runs in the state the body left.
\<close>

type_synonym ('a, 's) prog = "'s \<Rightarrow> 'a outcome \<times> 's"

definition returns :: "'a \<Rightarrow> ('a, 's) prog" where
  "returns v s = (Inr v, s)"

definition raises :: "pyexc \<Rightarrow> ('a, 's) prog" where
  "raises e s = (Inl e, s)"

definition then_do :: "('a, 's) prog \<Rightarrow> ('a \<Rightarrow> ('b, 's) prog) \<Rightarrow> ('b, 's) prog" where
  "then_do m f s = (case m s of (Inl e, s') \<Rightarrow> (Inl e, s') | (Inr v, s') \<Rightarrow> f v s')"

definition try_finally :: "('a, 's) prog \<Rightarrow> (unit, 's) prog \<Rightarrow> ('a, 's) prog" where
  "try_finally body cleanup s =
     (case body s of
        (r, s1) \<Rightarrow> (case cleanup s1 of (Inl e, s2) \<Rightarrow> (Inl e, s2) | (Inr u, s2) \<Rightarrow> (r, s2)))"

definition try_except :: "('a, 's) prog \<Rightarrow> (pyexc \<Rightarrow> ('a, 's) prog) \<Rightarrow> ('a, 's) prog" where
  "try_except body handler s =
     (case body s of (Inl e, s1) \<Rightarrow> handler e s1 | (Inr v, s1) \<Rightarrow> (Inr v, s1))"

subsection \<open>Python strings and dictionaries\<close>

text \<open>
  \<^verbatim>\<open>s.replace(old, new)\<close> for a non-empty \<^verbatim>\<open>old\<close>: the occurrences are replaced from
  the left, without overlap. The counter is the number of characters of a matched
  occurrence still to skip.
\<close>

fun replace_from :: "string \<Rightarrow> string \<Rightarrow> nat \<Rightarrow> string \<Rightarrow> string" where
  "replace_from old new k [] = []"
| "replace_from old new (Suc k) (c # cs) = replace_from old new k cs"
| "replace_from old new 0 (c # cs) =
     (if old \<noteq> [] \<and> take (length old) (c # cs) = old
      then new @ replace_from old new (length old - 1) cs
      else c # replace_from old new 0 cs)"

definition py_replace :: "string \<Rightarrow> string \<Rightarrow> string \<Rightarrow> string" where
  "py_replace s old new = replace_from old new 0 s"

text \<open>\<^verbatim>\<open>s.split(sep)\<close> for a separator of one character.\<close>

fun py_split :: "char \<Rightarrow> string \<Rightarrow> string list" where
  "py_split sep [] = [[]]"
| "py_split sep (c # cs) =
     (if c = sep then [] # py_split sep cs
      else (case py_split sep cs of [] \<Rightarrow> [[c]] | w # ws \<Rightarrow> (c # w) # ws))"

text \<open>\<^verbatim>\<open>xs[i]\<close> for a non-negative index.\<close>

definition py_index :: "'a list \<Rightarrow> nat \<Rightarrow> 'a outcome" where
  "py_index xs i = (if i < length xs then Inr (xs ! i) else Inl (PyExc ''IndexError'' ''list index out of range''))"

text \<open>
  A dictionary from file names to contents, in insertion order. \<^verbatim>\<open>files[k] = v\<close>
  replaces the value of a key that is present and appends a new key at the end.
\<close>

type_synonym files = "(string \<times> string) list"

fun dict_set :: "files \<Rightarrow> string \<Rightarrow> string \<Rightarrow> files" where
  "dict_set [] k v = [(k, v)]"
| "dict_set ((k', v') # kvs) k v = (if k' = k then (k, v) # kvs else (k', v') # dict_set kvs k v)"

text \<open>Values that \<^verbatim>\<open>json.loads\<close> gives.\<close>

datatype json = JNull | JBool bool | JNum int | JStr string | JList "json list"
  | JDict "(string \<times> json) list"

subsection \<open>Tasks and results\<close>

text \<open>The \<^verbatim>\<open>task_data\<close> dictionary built by \<^verbatim>\<open>request_task\<close>; \<open>round_number\<close> is its
  key \<^verbatim>\<open>round\<close>.\<close>

record task_data =
  task_id :: string
  round_number :: int
  nonce :: string
  brief :: string
  checks :: "string list"
  attachments :: "(string \<times> string) list list"
  evaluation_url :: string
  email :: string

record deployment =
  repo_url :: string
  commit_sha :: string
  pages_url :: string

text \<open>What \<^verbatim>\<open>_act_phase\<close> and \<^verbatim>\<open>process_round2_task\<close> return; \<open>files_count\<close> is the
  key \<^verbatim>\<open>files_generated\<close> of the first and \<^verbatim>\<open>files_updated\<close> of the second.\<close>

record act_result =
  workspace_id :: string
  files_count :: nat
  act_deployment :: deployment
  act_status :: string

text \<open>What \<^verbatim>\<open>_run_quality_checks\<close> returns: the keys \<^verbatim>\<open>overall_score\<close>, \<^verbatim>\<open>passed\<close>,
  \<^verbatim>\<open>failed\<close>, \<^verbatim>\<open>recommendations\<close> and \<^verbatim>\<open>screenshot\<close> (missing in the fallback).\<close>

record quality_checks =
  overall_score :: real
  qc_passed :: "string list"
  qc_failed :: "string list"
  recommendations :: "string list"
  qc_screenshot :: "string option"

text \<open>The final report of \<^verbatim>\<open>_review_phase\<close>.\<close>

record final_report =
  report_task_id :: string
  report_status :: string
  report_deployment :: deployment
  quality_score :: real
  report_checks_passed :: "string list"
  report_checks_failed :: "string list"
  report_recommendations :: "string list"
  completed_at :: string

datatype task_output = Report final_report | Round2Result act_result


text \<open>The row of the \<^verbatim>\<open>tasks\<close> table that the round-2 lookup reads; the column
  \<^verbatim>\<open>repo_url\<close> is nullable.\<close>

record task_row =
  row_repo_url :: "string option"

record callback_payload =
  cb_email :: string
  cb_task :: string
  cb_round :: int
  cb_nonce :: string
  cb_repo_url :: string
  cb_commit_sha :: string
  cb_pages_url :: string

record readme_args =
  readme_task_id :: string
  readme_brief :: string
  readme_checks :: "string list"
  readme_repo_url :: string
  readme_pages_url :: string
  readme_files :: "string list"
  readme_code_explanation :: string

subsection \<open>Collaborators and state\<close>

text \<open>
  Everything the pipeline calls outside the modelled code, as capabilities over an
  outside world \<open>'w\<close>: the operating system (\<^verbatim>\<open>uuid.uuid4\<close>, \<^verbatim>\<open>Path.mkdir\<close>,
  \<^verbatim>\<open>shutil.rmtree\<close>, the shell, the clock), the LLM layer, \<^verbatim>\<open>json.loads\<close>, the prompt
  texts, the code generator, the generators of the licence, the explanation and the
  README (module \<^verbatim>\<open>src.agent.generators\<close>), the GitHub service, the HTTP client of
  \<^verbatim>\<open>post_with_retry\<close>, the Playwright driver behind \<^verbatim>\<open>PlaywrightEvaluator\<close>'s
  \<^verbatim>\<open>__aenter__\<close> and \<^verbatim>\<open>__aexit__\<close>, and the database service. Each raises or returns.
  \<open>mkdir_error\<close> and \<open>rmtree_error\<close> say whether the call would fail in the given world,
  and with which exception. \<^verbatim>\<open>_run_command\<close> catches its own exceptions and its result
  is not read, so only its effect on the world remains.
\<close>

record ('w, 'p) collaborators =
  uuid4 :: "'w \<Rightarrow> string \<times> 'w"
  mkdir_error :: "string \<Rightarrow> 'w \<Rightarrow> pyexc option"
  run_command :: "string \<Rightarrow> string \<Rightarrow> 'w \<Rightarrow> 'w"
  rmtree_error :: "string \<Rightarrow> 'w \<Rightarrow> pyexc option"
  utc_now_iso :: "'w \<Rightarrow> string \<times> 'w"
  llm_generate :: "llm_request \<Rightarrow> 'w \<Rightarrow> string outcome \<times> 'w"
  json_loads :: "string \<Rightarrow> json option"
  think_prompt :: "task_data \<Rightarrow> string"
  think_system_message :: string
  plan_prompt :: "task_data \<Rightarrow> json \<Rightarrow> string"
  plan_system_message :: string
  generate_application :: "task_data \<Rightarrow> string \<Rightarrow> 'w \<Rightarrow> files outcome \<times> 'w"
  update_application :: "task_data \<Rightarrow> string \<Rightarrow> files \<Rightarrow> 'w \<Rightarrow> files outcome \<times> 'w"
  generate_mit_license :: "'w \<Rightarrow> string outcome \<times> 'w"
  generate_code_explanation :: "string \<Rightarrow> files \<Rightarrow> 'w \<Rightarrow> string outcome \<times> 'w"
  generate_readme :: "readme_args \<Rightarrow> 'w \<Rightarrow> string outcome \<times> 'w"
  github_deploy_application :: "string \<Rightarrow> files \<Rightarrow> string \<Rightarrow> 'w \<Rightarrow> deployment outcome \<times> 'w"
  github_update_repository :: "string \<Rightarrow> files \<Rightarrow> string \<Rightarrow> 'w \<Rightarrow> string outcome \<times> 'w"
  http_post :: "string \<Rightarrow> callback_payload \<Rightarrow> real \<Rightarrow> 'w \<Rightarrow> int outcome \<times> 'w"
  launch_browser :: "'w \<Rightarrow> 'p browser outcome \<times> 'w"
  stop_browser :: "'w \<Rightarrow> unit outcome \<times> 'w"
  get_task_by_task_id_and_round :: "string \<Rightarrow> int \<Rightarrow> 'w \<Rightarrow> task_row option outcome \<times> 'w"
  update_task_status :: "int \<Rightarrow> string \<Rightarrow> 'w \<Rightarrow> unit outcome \<times> 'w"
  update_task_deployment :: "int \<Rightarrow> string \<Rightarrow> string \<Rightarrow> 'w \<Rightarrow> unit outcome \<times> 'w"
  update_task_error :: "int \<Rightarrow> string \<Rightarrow> 'w \<Rightarrow> unit outcome \<times> 'w"

text \<open>
  The state of the agent: the outside world; the directories that exist, as
  \<^verbatim>\<open>os.path.exists\<close> sees them; the keys of \<^verbatim>\<open>AgentTools.workspaces\<close> (each key maps to
  itself); and two logs kept for the statements below: the argument of every call of
  \<^verbatim>\<open>cleanup_workspace\<close>, and the \<^verbatim>\<open>existing_files\<close> argument of every call of
  \<^verbatim>\<open>update_application\<close>.
\<close>

record 'w agent_state =
  outside :: 'w
  dirs :: "string set"
  workspaces :: "string set"
  cleanup_log :: "string list"
  update_log :: "files list"

definition lift_outside :: "('w \<Rightarrow> 'a outcome \<times> 'w) \<Rightarrow> ('a, 'w agent_state) prog" where
  "lift_outside f s = (case f (outside s) of (r, w) \<Rightarrow> (r, s\<lparr>outside := w\<rparr>))"

subsection \<open>Workspaces (\<^verbatim>\<open>AgentTools\<close>)\<close>

text \<open>\<^verbatim>\<open>create_workspace\<close>; its handler logs and re-raises.\<close>

definition create_workspace :: "('w, 'p) collaborators \<Rightarrow> string \<Rightarrow> (string, 'w agent_state) prog" where
  "create_workspace C workspace_path =
     then_do (\<lambda>s. case mkdir_error C workspace_path (outside s) of
                     Some e \<Rightarrow> (Inl e, s)
                   | None \<Rightarrow> (Inr (), s\<lparr>dirs := insert workspace_path (dirs s)\<rparr>))
     (\<lambda>u. then_do (\<lambda>s. (Inr (), s\<lparr>outside := run_command C ''git init'' workspace_path (outside s)\<rparr>))
     (\<lambda>u. then_do (\<lambda>s. (Inr (), s\<lparr>outside := run_command C
                (''git config user.name '' @ [CHR 0x27] @ ''AI Agent'' @ [CHR 0x27])
                workspace_path (outside s)\<rparr>))
     (\<lambda>u. then_do (\<lambda>s. (Inr (), s\<lparr>outside := run_command C
                (''git config user.email '' @ [CHR 0x27] @ ''agent@llm-deployment.com'' @ [CHR 0x27])
                workspace_path (outside s)\<rparr>))
     (\<lambda>u s. (Inr workspace_path, s\<lparr>workspaces := insert workspace_path (workspaces s)\<rparr>)))))"

text \<open>
  \<^verbatim>\<open>cleanup_workspace\<close>: the whole body stands in a \<^verbatim>\<open>try\<close> whose handler logs the
  exception and returns. A failing \<^verbatim>\<open>rmtree\<close> leaves the directory, and skips the
  \<^verbatim>\<open>pop\<close> from the tracking dictionary.
\<close>

definition cleanup_workspace :: "('w, 'p) collaborators \<Rightarrow> string \<Rightarrow> (unit, 'w agent_state) prog" where
  "cleanup_workspace C workspace_path s0 =
     (let s = s0\<lparr>cleanup_log := cleanup_log s0 @ [workspace_path]\<rparr> in
      try_except
        (then_do
           (\<lambda>s. if workspace_path \<in> dirs s then
                   (case rmtree_error C workspace_path (outside s) of
                      Some e \<Rightarrow> (Inl e, s)
                    | None \<Rightarrow> (Inr (), s\<lparr>dirs := dirs s - {workspace_path}\<rparr>))
                 else (Inr (), s))
           (\<lambda>u s. (Inr (), s\<lparr>workspaces := workspaces s - {workspace_path}\<rparr>)))
        (\<lambda>e. returns ()) s)"

subsection \<open>Callback delivery\<close>

text \<open>\<^verbatim>\<open>post_with_retry\<close> (src/utils/retry.py): the POST, which raises on a 4xx or 5xx
  status, under \<open>retry_with_backoff\<close> with the default \<^verbatim>\<open>max_delay\<close> of 60 seconds.\<close>

definition post_with_retry ::
  "('w, 'p) collaborators \<Rightarrow> string \<Rightarrow> callback_payload \<Rightarrow> int \<Rightarrow> real \<Rightarrow> (int, 'w agent_state) prog" where
  "post_with_retry C target json_data max_attempts timeout s =
     (case retry_with_backoff (http_post C target json_data timeout) max_attempts 1 60 2 (outside s) of
        ((ex, r), run) \<Rightarrow> (r, s\<lparr>outside := env_state run\<rparr>))"

text \<open>\<^verbatim>\<open>_send_evaluation_callback\<close>: a failed delivery is logged, not raised.\<close>

definition send_evaluation_callback ::
  "('w, 'p) collaborators \<Rightarrow> task_data \<Rightarrow> deployment \<Rightarrow> (unit, 'w agent_state) prog" where
  "send_evaluation_callback C task deployment_result =
     (if evaluation_url task = [] then returns ()
      else try_except
             (then_do
                (post_with_retry C (evaluation_url task)
                   \<lparr>cb_email = email task, cb_task = task_id task, cb_round = round_number task,
                    cb_nonce = nonce task, cb_repo_url = repo_url deployment_result,
                    cb_commit_sha = commit_sha deployment_result,
                    cb_pages_url = pages_url deployment_result\<rparr> 5 30)
                (\<lambda>response. returns ()))
             (\<lambda>e. returns ()))"

subsection \<open>Think and Plan\<close>

definition fallback_analysis :: "task_data \<Rightarrow> json" where
  "fallback_analysis task =
     JDict [(''technologies'', JList [JStr ''HTML'', JStr ''CSS'', JStr ''JavaScript'']),
            (''complexity'', JStr ''medium''),
            (''estimated_effort'', JStr ''2-3 hours''),
            (''key_components'', JList [JStr ''User interface'', JStr ''Functionality'']),
            (''potential_challenges'', JList [JStr ''Cross-browser compatibility'']),
            (''success_criteria'', JList (map JStr (take 2 (checks task))))]"

definition think_phase :: "('w, 'p) collaborators \<Rightarrow> task_data \<Rightarrow> (json, 'w agent_state) prog" where
  "think_phase C task =
     then_do (lift_outside (llm_generate C
                \<lparr>prompt = think_prompt C task, system_message = think_system_message C,
                 max_tokens = 800, temperature = 3 / 10\<rparr>))
       (\<lambda>analysis_text. returns (case json_loads C analysis_text of
                                   Some analysis \<Rightarrow> analysis
                                 | None \<Rightarrow> fallback_analysis task))"

definition fallback_plan :: json where
  "fallback_plan =
     JDict [(''steps'', JList
              [JDict [(''step'', JNum 1), (''description'', JStr ''Create HTML structure''),
                      (''estimated_time'', JStr ''30 minutes''), (''dependencies'', JList []),
                      (''tools'', JList [JStr ''HTML editor''])],
               JDict [(''step'', JNum 2), (''description'', JStr ''Add CSS styling''),
                      (''estimated_time'', JStr ''45 minutes''),
                      (''dependencies'', JList [JStr ''step 1'']),
                      (''tools'', JList [JStr ''CSS editor''])],
               JDict [(''step'', JNum 3), (''description'', JStr ''Implement JavaScript functionality''),
                      (''estimated_time'', JStr ''60 minutes''),
                      (''dependencies'', JList [JStr ''step 1'', JStr ''step 2'']),
                      (''tools'', JList [JStr ''JavaScript editor''])]]),
            (''file_structure'', JDict [(''index.html'', JStr ''Main application file''),
                                        (''style.css'', JStr ''Application styles''),
                                        (''script.js'', JStr ''Application logic'')]),
            (''testing_strategy'', JStr ''Manual testing in browser'')]"

definition plan_phase :: "('w, 'p) collaborators \<Rightarrow> task_data \<Rightarrow> json \<Rightarrow> (json, 'w agent_state) prog" where
  "plan_phase C task analysis =
     then_do (lift_outside (llm_generate C
                \<lparr>prompt = plan_prompt C task analysis, system_message = plan_system_message C,
                 max_tokens = 1000, temperature = 4 / 10\<rparr>))
       (\<lambda>plan_text. returns (case json_loads C plan_text of
                               Some plan \<Rightarrow> plan
                             | None \<Rightarrow> fallback_plan))"

subsection \<open>Act\<close>

text \<open>\<^verbatim>\<open>_deploy_application\<close>.\<close>

definition orch_deploy_application ::
  "('w, 'p) collaborators \<Rightarrow> task_data \<Rightarrow> files \<Rightarrow> (deployment, 'w agent_state) prog" where
  "orch_deploy_application C task fs =
     then_do (lift_outside (github_deploy_application C (task_id task) fs (take 100 (brief task))))
       (\<lambda>deployment_result.
          then_do (send_evaluation_callback C task deployment_result)
            (\<lambda>u. returns deployment_result))"

text \<open>The body of the \<^verbatim>\<open>try\<close> statement of \<^verbatim>\<open>_act_phase\<close>.\<close>

definition act_phase_body ::
  "('w, 'p) collaborators \<Rightarrow> task_data \<Rightarrow> string \<Rightarrow> string \<Rightarrow> (act_result, 'w agent_state) prog" where
  "act_phase_body C task ws_id workspace_path =
     then_do (create_workspace C workspace_path) (\<lambda>u.
     then_do (lift_outside (generate_application C task workspace_path)) (\<lambda>files0.
     then_do (lift_outside (generate_mit_license C)) (\<lambda>license_content.
     let files1 = dict_set files0 ''LICENSE'' license_content in
     then_do (lift_outside (generate_code_explanation C (brief task) files1)) (\<lambda>code_explanation.
     then_do (lift_outside (generate_readme C
                \<lparr>readme_task_id = task_id task, readme_brief = brief task,
                 readme_checks = checks task, readme_repo_url = '''', readme_pages_url = '''',
                 readme_files = map fst files1,
                 readme_code_explanation = code_explanation\<rparr>)) (\<lambda>readme_content.
     let files2 = dict_set files1 ''README.md'' readme_content in
     then_do (orch_deploy_application C task files2) (\<lambda>deployment_result.
     then_do (lift_outside (generate_readme C
                \<lparr>readme_task_id = task_id task, readme_brief = brief task,
                 readme_checks = checks task, readme_repo_url = repo_url deployment_result,
                 readme_pages_url = pages_url deployment_result,
                 readme_files = map fst files2,
                 readme_code_explanation = code_explanation\<rparr>)) (\<lambda>readme_content2.
     then_do (lift_outside (github_update_repository C (repo_url deployment_result)
                [(''README.md'', readme_content2)] ''Update application'')) (\<lambda>sha.
     returns \<lparr>workspace_id = ws_id, files_count = length files2,
              act_deployment = deployment_result, act_status = ''completed''\<rparr>))))))))"

text \<open>\<^verbatim>\<open>_act_phase\<close>: the body, and \<^verbatim>\<open>cleanup_workspace\<close> in the \<^verbatim>\<open>finally\<close> block.\<close>

definition act_phase ::
  "('w, 'p) collaborators \<Rightarrow> task_data \<Rightarrow> json \<Rightarrow> (act_result, 'w agent_state) prog" where
  "act_phase C task plan s =
     (case uuid4 C (outside s) of
        (ws_id, w) \<Rightarrow>
          try_finally (act_phase_body C task ws_id (''/tmp/workspace_'' @ ws_id))
            (cleanup_workspace C (''/tmp/workspace_'' @ ws_id))
            (s\<lparr>outside := w\<rparr>))"

subsection \<open>Round 2\<close>

text \<open>The call of \<^verbatim>\<open>update_application\<close>, with its \<^verbatim>\<open>existing_files\<close> argument logged.\<close>

definition call_update_application ::
  "('w, 'p) collaborators \<Rightarrow> task_data \<Rightarrow> string \<Rightarrow> files \<Rightarrow> (files, 'w agent_state) prog" where
  "call_update_application C task workspace_path existing_files s =
     lift_outside (update_application C task workspace_path existing_files)
       (s\<lparr>update_log := update_log s @ [existing_files]\<rparr>)"

text \<open>The body of the \<^verbatim>\<open>try\<close> statement of \<^verbatim>\<open>process_round2_task\<close>. The existing files
  are the literal the source builds; nothing is read from the repository.\<close>

definition round2_body ::
  "('w, 'p) collaborators \<Rightarrow> task_data \<Rightarrow> string \<Rightarrow> string \<Rightarrow> string \<Rightarrow> (act_result, 'w agent_state) prog" where
  "round2_body C task existing_repo_url ws_id workspace_path =
     then_do (create_workspace C workspace_path) (\<lambda>u.
     let existing_files = [(''index.html'', ''''), (''style.css'', ''''), (''script.js'', '''')] in
     then_do (call_update_application C task workspace_path existing_files) (\<lambda>updated_files0.
     then_do (lift_outside (generate_code_explanation C (brief task) updated_files0)) (\<lambda>code_explanation.
     then_do (lift_outside (generate_readme C
                \<lparr>readme_task_id = task_id task, readme_brief = brief task,
                 readme_checks = checks task, readme_repo_url = existing_repo_url,
                 readme_pages_url =
                   py_replace (py_replace existing_repo_url ''github.com'' ''github.io'') ''.git'' ''/'',
                 readme_files = map fst updated_files0,
                 readme_code_explanation = code_explanation\<rparr>)) (\<lambda>readme_content.
     let updated_files = dict_set updated_files0 ''README.md'' readme_content in
     then_do (lift_outside (github_update_repository C existing_repo_url updated_files
                (''Round 2 update: '' @ take 50 (brief task)))) (\<lambda>sha.
     let owner_repo = py_replace (py_replace existing_repo_url ''https://github.com/'' '''') ''.git'' '''' in
     then_do (\<lambda>s. (py_index (py_split CHR ''/'' owner_repo) 0, s)) (\<lambda>owner.
     then_do (\<lambda>s. (py_index (py_split CHR ''/'' owner_repo) 1, s)) (\<lambda>repo.
     let deployment_result =
           \<lparr>repo_url = existing_repo_url, commit_sha = sha,
            pages_url = ''https://'' @ owner @ ''.github.io/'' @ repo @ ''/''\<rparr> in
     then_do (send_evaluation_callback C task deployment_result) (\<lambda>u.
     returns \<lparr>workspace_id = ws_id, files_count = length updated_files,
              act_deployment = deployment_result, act_status = ''completed''\<rparr>))))))))"

definition process_round2_task ::
  "('w, 'p) collaborators \<Rightarrow> task_data \<Rightarrow> string \<Rightarrow> (act_result, 'w agent_state) prog" where
  "process_round2_task C task existing_repo_url s =
     (case uuid4 C (outside s) of
        (ws_id, w) \<Rightarrow>
          try_finally (round2_body C task existing_repo_url ws_id (''/tmp/workspace_'' @ ws_id))
            (cleanup_workspace C (''/tmp/workspace_'' @ ws_id))
            (s\<lparr>outside := w\<rparr>))"

subsection \<open>Review\<close>

text \<open>
  The body of the \<^verbatim>\<open>try\<close> statement of \<^verbatim>\<open>_run_quality_checks\<close>: the evaluator is
  entered, the page is evaluated, and the evaluator is left before the value is returned.
\<close>

definition quality_checks_body ::
  "('w, 'p) collaborators \<Rightarrow> act_result \<Rightarrow> task_data \<Rightarrow> (quality_checks, 'w agent_state) prog" where
  "quality_checks_body C result task =
     then_do (lift_outside (launch_browser C)) (\<lambda>evaluator.
     let eval_result = fst (evaluate_page evaluator (pages_url (act_deployment result))
                              (checks task) 30000) in
     then_do (lift_outside (stop_browser C)) (\<lambda>u.
     returns \<lparr>overall_score = score eval_result,
              qc_passed = checks_passed eval_result,
              qc_failed = map fst (checks_failed eval_result),
              recommendations =
                [''Application deployed successfully'',
                 ''Passed '' @ str_of_nat (length (checks_passed eval_result)) @ ''/''
                   @ str_of_nat (total_checks eval_result) @ '' checks''],
              qc_screenshot = screenshot eval_result\<rparr>))"

text \<open>\<^verbatim>\<open>_run_quality_checks\<close>: any exception of the body gives the fallback report.\<close>

definition run_quality_checks ::
  "('w, 'p) collaborators \<Rightarrow> act_result \<Rightarrow> task_data \<Rightarrow> (quality_checks, 'w agent_state) prog" where
  "run_quality_checks C result task =
     try_except (quality_checks_body C result task)
       (\<lambda>e. returns \<lparr>overall_score = 1 / 2, qc_passed = [], qc_failed = checks task,
                     recommendations = [''Evaluation error: '' @ exc_str e],
                     qc_screenshot = None\<rparr>)"

text \<open>\<^verbatim>\<open>_review_phase\<close>.\<close>

definition review_phase ::
  "('w, 'p) collaborators \<Rightarrow> task_data \<Rightarrow> act_result \<Rightarrow> (final_report, 'w agent_state) prog" where
  "review_phase C task result =
     then_do (run_quality_checks C result task) (\<lambda>quality.
     then_do (\<lambda>s. case utc_now_iso C (outside s) of (t, w) \<Rightarrow> (Inr t, s\<lparr>outside := w\<rparr>)) (\<lambda>now.
     returns \<lparr>report_task_id = task_id task, report_status = ''completed'',
              report_deployment = act_deployment result,
              quality_score = overall_score quality,
              report_checks_passed = qc_passed quality,
              report_checks_failed = qc_failed quality,
              report_recommendations = recommendations quality,
              completed_at = now\<rparr>))"

subsection \<open>Task processing\<close>

text \<open>\<^verbatim>\<open>process_task\<close>; its handler logs and re-raises.\<close>

definition process_task :: "('w, 'p) collaborators \<Rightarrow> task_data \<Rightarrow> (final_report, 'w agent_state) prog" where
  "process_task C task =
     try_except
       (then_do (think_phase C task) (\<lambda>analysis.
        then_do (plan_phase C task analysis) (\<lambda>plan.
        then_do (act_phase C task plan) (\<lambda>result.
        review_phase C task result))))
       (\<lambda>e. raises e)"

text \<open>\<^verbatim>\<open>existing_task and existing_task.repo_url\<close>: the repository of round 1 when the row
  exists and its \<^verbatim>\<open>repo_url\<close> is neither \<^verbatim>\<open>None\<close> nor empty.\<close>

fun resolved_repo_url :: "task_row option \<Rightarrow> string option" where
  "resolved_repo_url None = None"
| "resolved_repo_url (Some row) =
     (case row_repo_url row of None \<Rightarrow> None | Some u \<Rightarrow> if u = [] then None else Some u)"

text \<open>The choice of the processing path in \<^verbatim>\<open>process_autonomous_task\<close>.\<close>

definition dispatch_task :: "('w, 'p) collaborators \<Rightarrow> task_data \<Rightarrow> (task_output, 'w agent_state) prog" where
  "dispatch_task C task =
     (if round_number task = 2 then
        then_do (lift_outside (get_task_by_task_id_and_round C (task_id task) 1)) (\<lambda>existing_task.
          case resolved_repo_url existing_task of
            Some existing_repo_url \<Rightarrow>
              then_do (process_round2_task C task existing_repo_url) (\<lambda>r. returns (Round2Result r))
          | None \<Rightarrow> then_do (process_task C task) (\<lambda>r. returns (Report r)))
      else then_do (process_task C task) (\<lambda>r. returns (Report r)))"


subsection \<open>Frames\<close>

text \<open>A program leaves an observation of the state as it found it.\<close>

definition keeps :: "('s \<Rightarrow> 'x) \<Rightarrow> ('a, 's) prog \<Rightarrow> bool" where
  "keeps obs m = (\<forall>s. obs (snd (m s)) = obs s)"

subsection \<open>A sample deployment\<close>

text \<open>
  A small outside world for running the pipeline: a counter for the workspace
  identifiers, the repositories of the hosting service with their files, the row of
  round 1 in the database, the status updates written to the database, and switches for
  three failures: \<^verbatim>\<open>shutil.rmtree\<close> refusing to remove the workspace, the deployment
  failing, and the browser failing to launch.
\<close>

record sample_world =
  uuids :: nat
  repos :: "(string \<times> files) list"
  round1_row :: "task_row option"
  db_status :: "string list"
  rmtree_works :: bool
  deploy_works :: bool
  browser_works :: bool

definition sample_collaborators :: "(sample_world, nat) collaborators" where
  "sample_collaborators =
     \<lparr>uuid4 = (\<lambda>w. (''w'' @ str_of_nat (uuids w), w\<lparr>uuids := Suc (uuids w)\<rparr>)),
      mkdir_error = (\<lambda>p w. None),
      run_command = (\<lambda>c p w. w),
      rmtree_error = (\<lambda>p w. if rmtree_works w then None
                              else Some (PyExc ''PermissionError'' ''[WinError 5] Access is denied'')),
      utc_now_iso = (\<lambda>w. (''2025-01-01T00:00:00+00:00'', w)),
      llm_generate = (\<lambda>req w. (Inr ''no json here'', w)),
      json_loads = (\<lambda>t. None),
      think_prompt = (\<lambda>task. ''analyse: '' @ brief task),
      think_system_message = ''analyst'',
      plan_prompt = (\<lambda>task analysis. ''plan: '' @ brief task),
      plan_system_message = ''architect'',
      generate_application = (\<lambda>task p w.
        (Inr [(''index.html'', ''<h1>v1</h1>''), (''style.css'', ''h1{}''), (''script.js'', ''v1()'')], w)),
      update_application = (\<lambda>task p existing w.
        (Inr (map (\<lambda>(name, current). (name, current @ ''+'' @ brief task)) existing), w)),
      generate_mit_license = (\<lambda>w. (Inr ''MIT License'', w)),
      generate_code_explanation = (\<lambda>b fs w. (Inr ''explanation'', w)),
      generate_readme = (\<lambda>args w. (Inr (''readme of '' @ readme_task_id args), w)),
      github_deploy_application = (\<lambda>tid fs description w.
        if deploy_works w then
          (Inr \<lparr>repo_url = ''https://github.com/u/'' @ tid, commit_sha = ''c1'',
                pages_url = ''https://u.github.io/'' @ tid @ ''/''\<rparr>,
           w\<lparr>repos := (''https://github.com/u/'' @ tid, fs) # repos w\<rparr>)
        else (Inl (PyExc ''ValueError'' ''GitHub integration not available''), w)),
      github_update_repository = (\<lambda>target fs message w.
        (Inr ''c2'',
         w\<lparr>repos := map (\<lambda>(u, old). if u = target
                                       then (u, fold (\<lambda>(k, v) acc. dict_set acc k v) fs old)
                                       else (u, old)) (repos w)\<rparr>)),
      http_post = (\<lambda>target payload timeout w. (Inr 200, w)),
      launch_browser = (\<lambda>w. if browser_works w then (Inr (sample_browser 200), w)
                              else (Inl (PyExc ''Error'' ''browser executable not found''), w)),
      stop_browser = (\<lambda>w. (Inr (), w)),
      get_task_by_task_id_and_round = (\<lambda>tid r w. (Inr (round1_row w), w)),
      update_task_status = (\<lambda>i st w. (Inr (), w\<lparr>db_status := db_status w @ [st]\<rparr>)),
      update_task_deployment = (\<lambda>i r p w. (Inr (), w)),
      update_task_error = (\<lambda>i msg w. (Inr (), w))\<rparr>"

definition sample_task :: "int \<Rightarrow> task_data" where
  "sample_task r =
     \<lparr>task_id = ''t1'', round_number = r, nonce = ''n1'', brief = ''dark mode'',
      checks = [''js: true'', ''has a title''], attachments = [],
      evaluation_url = ''https://eval.example/notify'', email = ''a@b.c''\<rparr>"

text \<open>The world before round 1, and the world after round 1 has deployed its files.\<close>

definition fresh_world :: sample_world where
  "fresh_world =
     \<lparr>uuids = 0, repos = [], round1_row = None, db_status = [],
      rmtree_works = True, deploy_works = True, browser_works = True\<rparr>"


definition agent_start :: "'w \<Rightarrow> 'w agent_state" where
  "agent_start w = \<lparr>outside = w, dirs = {}, workspaces = {}, cleanup_log = [], update_log = []\<rparr>"

definition sample_act_result :: act_result where
  "sample_act_result =
     \<lparr>workspace_id = ''w0'', files_count = 5,
      act_deployment = \<lparr>repo_url = ''https://github.com/u/t1'', commit_sha = ''c1'',
                         pages_url = ''https://u.github.io/t1/''\<rparr>,
      act_status = ''completed''\<rparr>"

section \<open>Properties of the backoff retrier\<close>

lemma retry_loop_char:
  "retry_loop func ma md bf atts d l s = ((ex, r), s') \<Longrightarrow>
    \<exists>new. attempts_log s' = attempts_log s @ new \<and> length new \<le> length atts \<and>
      (case ex of
         LoopReturn \<Rightarrow> \<exists>v pre. r = Inr v \<and> new = pre @ [Inr v] \<and> list_all isl pre
       | LoopReraise \<Rightarrow> \<exists>e pre. r = Inl e \<and> new = pre @ [Inl e] \<and> list_all isl pre
                         \<and> length pre < length atts \<and> atts ! length pre = ma
       | TrailingRaise \<Rightarrow> ma \<notin> set atts \<and> isl r)"
proof (induction atts arbitrary: d l s)
  case Nil
  then show ?case by auto
next
  case (Cons attempt rest)
  obtain o1 w where f: "func (env_state s) = (o1, w)" by (cases "func (env_state s)")
  show ?case
  proof (cases o1)
    case (Inr v)
    with Cons.prems f show ?thesis by auto
  next
    case (Inl e)
    let ?s1 = "s\<lparr>env_state := w, attempts_log := attempts_log s @ [Inl e]\<rparr>"
    show ?thesis
    proof (cases "attempt = ma")
      case True
      with Cons.prems f Inl show ?thesis by auto
    next
      case False
      with Cons.prems f Inl have rec:
        "retry_loop func ma md bf rest (min (d * bf) md) (Some e)
           (?s1\<lparr>sleep_log := sleep_log ?s1 @ [d]\<rparr>) = ((ex, r), s')"
        by (simp add: Let_def)
      from Cons.IH[OF rec] obtain new where n:
        "attempts_log s' = (attempts_log s @ [Inl e]) @ new" "length new \<le> length rest"
        "(case ex of
         LoopReturn \<Rightarrow> \<exists>v pre. r = Inr v \<and> new = pre @ [Inr v] \<and> list_all isl pre
       | LoopReraise \<Rightarrow> \<exists>e pre. r = Inl e \<and> new = pre @ [Inl e] \<and> list_all isl pre
                         \<and> length pre < length rest \<and> rest ! length pre = ma
       | TrailingRaise \<Rightarrow> ma \<notin> set rest \<and> isl r)"
        by auto
      have log: "attempts_log s' = attempts_log s @ (Inl e # new)" using n(1) by simp
      have len: "length (Inl e # new) \<le> length (attempt # rest)" using n(2) by simp
      show ?thesis
      proof (cases ex)
        case LoopReturn
        with n obtain v pre where "r = Inr v" "new = pre @ [Inr v]" "list_all isl pre" by auto
        then have "r = Inr v \<and> Inl e # new = (Inl e # pre) @ [Inr v] \<and> list_all isl (Inl e # pre)"
          by simp
        then have "\<exists>v pre. r = Inr v \<and> Inl e # new = pre @ [Inr v] \<and> list_all isl pre"
          by blast
        with log len LoopReturn show ?thesis
          by (intro exI[of _ "Inl e # new"]) simp
      next
        case LoopReraise
        with n obtain e' pre where "r = Inl e'" "new = pre @ [Inl e']" "list_all isl pre"
          "length pre < length rest" "rest ! length pre = ma" by auto
        then have "r = Inl e' \<and> Inl e # new = (Inl e # pre) @ [Inl e'] \<and> list_all isl (Inl e # pre)
           \<and> length (Inl e # pre) < length (attempt # rest) \<and> (attempt # rest) ! length (Inl e # pre) = ma"
          by simp
        then have "\<exists>e' pre. r = Inl e' \<and> Inl e # new = pre @ [Inl e'] \<and> list_all isl pre
           \<and> length pre < length (attempt # rest) \<and> (attempt # rest) ! length pre = ma"
          by blast
        with log len LoopReraise show ?thesis
          by (intro exI[of _ "Inl e # new"]) simp
      next
        case TrailingRaise
        with n False log len show ?thesis
          by (intro exI[of _ "Inl e # new"]) simp
      qed
    qed
  qed
qed


lemma upto_from_one_nth:
  "k < length [1..m] \<Longrightarrow> [1..m] ! k = m \<Longrightarrow> int (Suc k) = m"
  by simp

lemma retry_with_backoff_char:
  assumes "retry_with_backoff func ma d0 md bf w = ((ex, r), s')"
  shows "int (length (attempts_log s')) \<le> max 0 ma"
    and "ex = LoopReturn \<Longrightarrow> \<exists>v pre. r = Inr v \<and> attempts_log s' = pre @ [Inr v] \<and> list_all isl pre"
    and "ex = LoopReraise \<Longrightarrow> \<exists>e pre. r = Inl e \<and> attempts_log s' = pre @ [Inl e]
            \<and> list_all isl pre \<and> int (length (attempts_log s')) = ma"
    and "ex = TrailingRaise \<Longrightarrow> ma \<le> 0 \<and> isl r"
proof -
  from assms have run:
    "retry_loop func ma md bf [1..ma] d0 None \<lparr>env_state = w, attempts_log = [], sleep_log = []\<rparr>
       = ((ex, r), s')"
    by (simp add: retry_with_backoff_def)
  from retry_loop_char[OF run] obtain new where n:
    "attempts_log s' = new" "length new \<le> length [1..ma]"
    "(case ex of
         LoopReturn \<Rightarrow> \<exists>v pre. r = Inr v \<and> new = pre @ [Inr v] \<and> list_all isl pre
       | LoopReraise \<Rightarrow> \<exists>e pre. r = Inl e \<and> new = pre @ [Inl e] \<and> list_all isl pre
                         \<and> length pre < length [1..ma] \<and> [1..ma] ! length pre = ma
       | TrailingRaise \<Rightarrow> ma \<notin> set [1..ma] \<and> isl r)"
    by auto
  from n(1,2) show "int (length (attempts_log s')) \<le> max 0 ma" by simp
  show "\<exists>v pre. r = Inr v \<and> attempts_log s' = pre @ [Inr v] \<and> list_all isl pre"
    if "ex = LoopReturn" using that n(1,3) by simp
  show "\<exists>e pre. r = Inl e \<and> attempts_log s' = pre @ [Inl e]
            \<and> list_all isl pre \<and> int (length (attempts_log s')) = ma" if "ex = LoopReraise"
  proof -
    from that n(3) obtain e pre where p: "r = Inl e" "new = pre @ [Inl e]" "list_all isl pre"
      "length pre < length [1..ma]" "[1..ma] ! length pre = ma" by auto
    from upto_from_one_nth[OF p(4,5)] have "int (length new) = ma" using p(2) by simp
    with p n(1) show ?thesis by auto
  qed
  show "ma \<le> 0 \<and> isl r" if "ex = TrailingRaise" using that n(3) by auto
qed


text \<open>
  Claim C6, as amended. An operation that fails on its first two invocations and succeeds on
  the third, retried with \<open>max_attempts \<ge> 3\<close>, is invoked exactly three times and its
  value is returned; there are two sleeps, \<open>initial_delay\<close> (as given, not capped) and
  \<open>min (initial_delay * backoff_factor) max_delay\<close>, so the total slept is their sum, which is
  \<open>initial_delay + initial_delay * backoff_factor\<close> when that product does not exceed
  \<open>max_delay\<close>. For every operation: it is invoked at most \<open>max_attempts\<close> times; a
  returned value is the outcome of the last invocation and every earlier invocation failed;
  with \<open>max_attempts \<ge> 1\<close> a raised exception is the one of invocation number
  \<open>max_attempts\<close>, all invocations having failed.
\<close>

theorem retry_fails_twice_then_succeeds:
  "(func w0 = (Inl e1, w1) \<and> func w1 = (Inl e2, w2) \<and> func w2 = (Inr v, w3) \<and> 3 \<le> max_attempts \<longrightarrow>
      retry_with_backoff func max_attempts initial_delay max_delay backoff_factor w0 =
        ((LoopReturn, Inr v),
         \<lparr>env_state = w3, attempts_log = [Inl e1, Inl e2, Inr v],
          sleep_log = [initial_delay, min (initial_delay * backoff_factor) max_delay]\<rparr>)
      \<and> sum_list (sleep_log (snd (retry_with_backoff func max_attempts initial_delay max_delay
             backoff_factor w0))) = initial_delay + min (initial_delay * backoff_factor) max_delay
      \<and> (initial_delay * backoff_factor \<le> max_delay \<longrightarrow>
           sum_list (sleep_log (snd (retry_with_backoff func max_attempts initial_delay max_delay
             backoff_factor w0))) = initial_delay + initial_delay * backoff_factor))
   \<and> (case retry_with_backoff func max_attempts initial_delay max_delay backoff_factor w of
        ((ex, r), s') \<Rightarrow>
          int (length (attempts_log s')) \<le> max 0 max_attempts
          \<and> (\<forall>x. r = Inr x \<longrightarrow> (\<exists>pre. attempts_log s' = pre @ [Inr x] \<and> list_all isl pre))
          \<and> (\<forall>e. r = Inl e \<and> 1 \<le> max_attempts \<longrightarrow>
                (\<exists>pre. attempts_log s' = pre @ [Inl e] \<and> list_all isl pre
                   \<and> int (length (attempts_log s')) = max_attempts)))"
proof (intro conjI impI)
  assume a: "func w0 = (Inl e1, w1) \<and> func w1 = (Inl e2, w2) \<and> func w2 = (Inr v, w3) \<and> 3 \<le> max_attempts"
  then have u: "[1..max_attempts] = 1 # 2 # 3 # [4..max_attempts]"
    by (simp add: upto_rec1)
  from a have n: "1 \<noteq> max_attempts" "2 \<noteq> max_attempts" by auto
  show run: "retry_with_backoff func max_attempts initial_delay max_delay backoff_factor w0 =
        ((LoopReturn, Inr v),
         \<lparr>env_state = w3, attempts_log = [Inl e1, Inl e2, Inr v],
          sleep_log = [initial_delay, min (initial_delay * backoff_factor) max_delay]\<rparr>)"
    unfolding retry_with_backoff_def u using a n by simp
  show "sum_list (sleep_log (snd (retry_with_backoff func max_attempts initial_delay max_delay
             backoff_factor w0))) = initial_delay + min (initial_delay * backoff_factor) max_delay"
    unfolding run by simp
  show "sum_list (sleep_log (snd (retry_with_backoff func max_attempts initial_delay max_delay
             backoff_factor w0))) = initial_delay + initial_delay * backoff_factor"
    if "initial_delay * backoff_factor \<le> max_delay"
    unfolding run using that by simp
next
  obtain ex r s' where run:
    "retry_with_backoff func max_attempts initial_delay max_delay backoff_factor w = ((ex, r), s')"
    by (metis surj_pair)
  note c = retry_with_backoff_char[OF run]
  have "\<exists>pre. attempts_log s' = pre @ [Inr x] \<and> list_all isl pre" if "r = Inr x" for x
  proof -
    from that c(3,4) have "ex = LoopReturn" by (cases ex) auto
    from c(2)[OF this] that show ?thesis by auto
  qed
  moreover have "\<exists>pre. attempts_log s' = pre @ [Inl e] \<and> list_all isl pre
                   \<and> int (length (attempts_log s')) = max_attempts"
    if "r = Inl e \<and> 1 \<le> max_attempts" for e
  proof -
    from that c(2,4) have "ex = LoopReraise" by (cases ex) auto
    from c(3)[OF this] that show ?thesis by auto
  qed
  ultimately show "case retry_with_backoff func max_attempts initial_delay max_delay backoff_factor w of
        ((ex, r), s') \<Rightarrow>
          int (length (attempts_log s')) \<le> max 0 max_attempts
          \<and> (\<forall>x. r = Inr x \<longrightarrow> (\<exists>pre. attempts_log s' = pre @ [Inr x] \<and> list_all isl pre))
          \<and> (\<forall>e. r = Inl e \<and> 1 \<le> max_attempts \<longrightarrow>
                (\<exists>pre. attempts_log s' = pre @ [Inl e] \<and> list_all isl pre
                   \<and> int (length (attempts_log s')) = max_attempts))"
    unfolding run using c(1) by simp
qed

text \<open>
  Claim C9. With \<open>max_attempts \<ge> 1\<close> the function is left inside the loop: through the
  \<^verbatim>\<open>return\<close> with the first successful result, or through the bare \<^verbatim>\<open>raise\<close> with the
  exception of attempt number \<open>max_attempts\<close>; the trailing \<^verbatim>\<open>raise last_exception\<close> is
  not reached. With \<open>max_attempts \<le> 0\<close> the operation is never invoked and the trailing
  statement raises \<^verbatim>\<open>None\<close>, which Python turns into a \<^verbatim>\<open>TypeError\<close>.
\<close>

theorem retry_exits_inside_loop:
  "(1 \<le> max_attempts \<longrightarrow>
      (case retry_with_backoff func max_attempts initial_delay max_delay backoff_factor w of
         ((ex, r), s') \<Rightarrow>
           ex \<noteq> TrailingRaise
           \<and> (ex = LoopReturn \<longrightarrow>
                (\<exists>v pre. r = Inr v \<and> attempts_log s' = pre @ [Inr v] \<and> list_all isl pre))
           \<and> (ex = LoopReraise \<longrightarrow>
                (\<exists>e pre. r = Inl e \<and> attempts_log s' = pre @ [Inl e] \<and> list_all isl pre
                   \<and> int (length (attempts_log s')) = max_attempts))))
   \<and> (max_attempts \<le> 0 \<longrightarrow>
        retry_with_backoff func max_attempts initial_delay max_delay backoff_factor w =
          ((TrailingRaise, Inl (PyExc ''TypeError'' ''exceptions must derive from BaseException'')),
           \<lparr>env_state = w, attempts_log = [], sleep_log = []\<rparr>))"
proof (intro conjI impI)
  assume pos: "1 \<le> max_attempts"
  obtain ex r s' where run:
    "retry_with_backoff func max_attempts initial_delay max_delay backoff_factor w = ((ex, r), s')"
    by (metis surj_pair)
  note c = retry_with_backoff_char[OF run]
  from c(4) pos have "ex \<noteq> TrailingRaise" by auto
  with c(2,3) show "case retry_with_backoff func max_attempts initial_delay max_delay backoff_factor w of
         ((ex, r), s') \<Rightarrow>
           ex \<noteq> TrailingRaise
           \<and> (ex = LoopReturn \<longrightarrow>
                (\<exists>v pre. r = Inr v \<and> attempts_log s' = pre @ [Inr v] \<and> list_all isl pre))
           \<and> (ex = LoopReraise \<longrightarrow>
                (\<exists>e pre. r = Inl e \<and> attempts_log s' = pre @ [Inl e] \<and> list_all isl pre
                   \<and> int (length (attempts_log s')) = max_attempts))"
    unfolding run by simp
next
  assume "max_attempts \<le> 0"
  then have "[1..max_attempts] = []" by simp
  then show "retry_with_backoff func max_attempts initial_delay max_delay backoff_factor w =
          ((TrailingRaise, Inl (PyExc ''TypeError'' ''exceptions must derive from BaseException'')),
           \<lparr>env_state = w, attempts_log = [], sleep_log = []\<rparr>)"
    by (simp add: retry_with_backoff_def)
qed

lemma fails_twice_run:
  "retry_with_backoff fails_twice 3 1 (3/2) 2 0 =
     ((LoopReturn, Inr ''ok''),
      \<lparr>env_state = 3,
       attempts_log = [Inl (PyExc ''ConnectError'' ''down''), Inl (PyExc ''ConnectError'' ''down''), Inr ''ok''],
       sleep_log = [1, 3/2]\<rparr>)"
  by (simp add: retry_with_backoff_def fails_twice_def upto_rec1)

lemma fails_twice_run_uncapped_first:
  "retry_with_backoff fails_twice 3 2 1 2 0 =
     ((LoopReturn, Inr ''ok''),
      \<lparr>env_state = 3,
       attempts_log = [Inl (PyExc ''ConnectError'' ''down''), Inl (PyExc ''ConnectError'' ''down''), Inr ''ok''],
       sleep_log = [2, 1]\<rparr>)"
  by (simp add: retry_with_backoff_def fails_twice_def upto_rec1)

text \<open>
  The total of claim C6 as first stated fails where the cap takes effect: with
  \<open>initial_delay = 1\<close>, \<open>backoff_factor = 2\<close> and \<open>max_delay = 3/2\<close> the sleeps are
  \<open>1\<close> and \<open>3/2\<close>, not \<open>1\<close> and \<open>2\<close>; and the first sleep is never capped: with
  \<open>initial_delay = 2\<close> and \<open>max_delay = 1\<close> the sleeps are \<open>2\<close> and \<open>1\<close>.
\<close>

theorem retry_total_delay_counterexample:
  "fst (fails_twice 0) = Inl (PyExc ''ConnectError'' ''down'')
   \<and> fst (fails_twice 1) = Inl (PyExc ''ConnectError'' ''down'')
   \<and> fst (fails_twice 2) = Inr ''ok''
   \<and> fst (retry_with_backoff fails_twice 3 1 (3/2) 2 0) = (LoopReturn, Inr ''ok'')
   \<and> sum_list (sleep_log (snd (retry_with_backoff fails_twice 3 1 (3/2) 2 0))) = 5/2
   \<and> sum_list (sleep_log (snd (retry_with_backoff fails_twice 3 1 (3/2) 2 0))) \<noteq> 1 + 1 * 2
   \<and> sleep_log (snd (retry_with_backoff fails_twice 3 2 1 2 0)) = [2, 1]
   \<and> sum_list (sleep_log (snd (retry_with_backoff fails_twice 3 2 1 2 0))) \<noteq> min 2 1 + min (2 * 2) 1"
  unfolding fails_twice_run fails_twice_run_uncapped_first
  by (simp add: fails_twice_def)

theorem retry_fails_twice_then_succeeds_witness:
  "fails_twice 0 = (Inl (PyExc ''ConnectError'' ''down''), 1)
   \<and> fails_twice 1 = (Inl (PyExc ''ConnectError'' ''down''), 2)
   \<and> fails_twice 2 = (Inr ''ok'', 3) \<and> (3::int) \<le> 5
   \<and> retry_with_backoff fails_twice 5 1 60 2 0 =
        ((LoopReturn, Inr ''ok''),
         \<lparr>env_state = 3,
          attempts_log = [Inl (PyExc ''ConnectError'' ''down''), Inl (PyExc ''ConnectError'' ''down''), Inr ''ok''],
          sleep_log = [1, 2]\<rparr>)
   \<and> sum_list (sleep_log (snd (retry_with_backoff fails_twice 5 1 60 2 0))) = 1 + 1 * 2
   \<and> int (length (attempts_log (snd (retry_with_backoff always_fails 4 1 60 2 0)))) = 4
   \<and> fst (retry_with_backoff always_fails 4 1 60 2 0) = (LoopReraise, Inl (PyExc ''ConnectError'' ''down''))"
  using retry_fails_twice_then_succeeds [where func = fails_twice and ?w0.0 = 0 and ?w1.0 = 1
      and ?w2.0 = 2 and ?w3.0 = 3 and ?e1.0 = "PyExc ''ConnectError'' ''down''"
      and ?e2.0 = "PyExc ''ConnectError'' ''down''" and v = "''ok''" and max_attempts = 5
      and initial_delay = 1 and max_delay = 60 and backoff_factor = 2 and w = 0]
    retry_fails_twice_then_succeeds [where func = always_fails and ?w0.0 = 0 and ?w1.0 = 1
      and ?w2.0 = 2 and ?w3.0 = 3 and ?e1.0 = "PyExc ''ConnectError'' ''down''"
      and ?e2.0 = "PyExc ''ConnectError'' ''down''" and v = "''ok''" and max_attempts = 4
      and initial_delay = 1 and max_delay = 60 and backoff_factor = 2 and w = 0]
  by (simp add: fails_twice_def always_fails_def retry_with_backoff_def upto_rec1)

theorem retry_exits_inside_loop_witness:
  "(1::int) \<le> 4
   \<and> retry_with_backoff always_fails 4 1 60 2 0 =
        ((LoopReraise, Inl (PyExc ''ConnectError'' ''down'')),
         \<lparr>env_state = 4, attempts_log = replicate 4 (Inl (PyExc ''ConnectError'' ''down'')),
          sleep_log = [1, 2, 4]\<rparr>)
   \<and> (1::int) \<le> 3
   \<and> fst (retry_with_backoff fails_twice 3 1 60 2 0) = (LoopReturn, Inr ''ok'')
   \<and> (0::int) \<le> 0
   \<and> retry_with_backoff always_fails 0 1 60 2 0 =
        ((TrailingRaise, Inl (PyExc ''TypeError'' ''exceptions must derive from BaseException'')),
         \<lparr>env_state = 0, attempts_log = [], sleep_log = []\<rparr>)"
  using retry_exits_inside_loop [where max_attempts = 4 and func = always_fails
      and initial_delay = 1 and max_delay = 60 and backoff_factor = 2 and w = 0]
    retry_exits_inside_loop [where max_attempts = 3 and func = fails_twice
      and initial_delay = 1 and max_delay = 60 and backoff_factor = 2 and w = 0]
    retry_exits_inside_loop [where max_attempts = 0 and func = always_fails
      and initial_delay = 1 and max_delay = 60 and backoff_factor = 2 and w = 0]
  by (simp add: fails_twice_def always_fails_def retry_with_backoff_def upto_rec1 numeral_eq_Suc)

section \<open>Properties of the LLM access layer\<close>



lemma rotation_Cons:
  fixes n :: nat
  assumes "c < n"
  shows "c # map (\<lambda>j. ((c + 1) mod n + j) mod n) [0..<k] = map (\<lambda>j. (c + j) mod n) [0..<Suc k]"
proof -
  have "[0..<Suc k] = 0 # map Suc [0..<k]"
    by (simp add: upt_conv_Cons map_Suc_upt del: upt_Suc)
  moreover have "((c + 1) mod n + j) mod n = (c + Suc j) mod n" for j
    by (simp add: mod_add_left_eq)
  ultimately show ?thesis using assms by (simp add: comp_def del: upt_Suc)
qed


lemma provider_loop_char:
  assumes "current_provider_index s < length (providers s)"
      and "provider_loop req is last_error s = (r, s')"
  shows "\<exists>new. attempted s' = attempted s @ new \<and> length new \<le> length is
          \<and> map fst new = map (\<lambda>j. (current_provider_index s + j) mod length (providers s))
                             [0..<length new]
          \<and> current_provider_index s' =
                (current_provider_index s + length new) mod length (providers s)
          \<and> providers s' = providers s
          \<and> (case r of
                Inr response \<Rightarrow> \<exists>pre i. new = pre @ [(i, Inr response)] \<and> list_all (isl \<circ> snd) pre
              | Inl e \<Rightarrow> length new = length is \<and> list_all (isl \<circ> snd) new
                  \<and> ((new = [] \<and> e = PyExc ''ValueError''
                         (''All LLM providers failed. Last error: '' @ str_opt_exc last_error))
                     \<or> (\<exists>pre i e'. new = pre @ [(i, Inl e')] \<and> e = PyExc ''ValueError''
                           (''All LLM providers failed. Last error: '' @ exc_str e'))))"
  using assms
proof (induction "is" arbitrary: last_error s)
  case Nil
  then show ?case by auto
next
  case (Cons i rest)
  let ?c = "current_provider_index s"
  let ?n = "length (providers s)"
  obtain o1 w where call: "(providers s ! ?c) req (world s) = (o1, w)"
    by (cases "(providers s ! ?c) req (world s)")
  show ?case
  proof (cases o1)
    case (Inr response)
    with Cons.prems call have r: "r = Inr response"
      and s': "s' = s\<lparr>world := w, attempted := attempted s @ [(?c, Inr response)],
                      current_provider_index := (?c + 1) mod ?n\<rparr>"
      by auto
    have "\<exists>pre i. [(?c, Inr response)] = pre @ [(i, Inr response)] \<and> list_all (isl \<circ> snd) pre"
      by (intro exI[of _ "[]"]) simp
    with r s' Cons.prems(1) show ?thesis
      by (intro exI[of _ "[(?c, Inr response)]"]) simp
  next
    case (Inl e0)
    let ?s1 = "s\<lparr>world := w, attempted := attempted s @ [(?c, Inl e0)],
                  current_provider_index := (?c + 1) mod ?n\<rparr>"
    from Cons.prems call Inl have rec: "provider_loop req rest (Some e0) ?s1 = (r, s')"
      by simp
    from Cons.prems(1) have "0 < ?n" by (cases "providers s") auto
    then have inv: "current_provider_index ?s1 < length (providers ?s1)"
      by simp
    from Cons.IH[OF inv rec] obtain new where n:
      "attempted s' = (attempted s @ [(?c, Inl e0)]) @ new" "length new \<le> length rest"
      "map fst new = map (\<lambda>j. ((?c + 1) mod ?n + j) mod ?n) [0..<length new]"
      "current_provider_index s' = ((?c + 1) mod ?n + length new) mod ?n"
      "providers s' = providers s"
      "(case r of
                Inr response \<Rightarrow> \<exists>pre i. new = pre @ [(i, Inr response)] \<and> list_all (isl \<circ> snd) pre
              | Inl e \<Rightarrow> length new = length rest \<and> list_all (isl \<circ> snd) new
                  \<and> ((new = [] \<and> e = PyExc ''ValueError''
                         (''All LLM providers failed. Last error: '' @ str_opt_exc (Some e0)))
                     \<or> (\<exists>pre i e'. new = pre @ [(i, Inl e')] \<and> e = PyExc ''ValueError''
                           (''All LLM providers failed. Last error: '' @ exc_str e'))))"
      by auto
    let ?new = "(?c, Inl e0) # new"
    have log: "attempted s' = attempted s @ ?new" using n(1) by simp
    have len: "length ?new \<le> length (i # rest)" using n(2) by simp
    have idx: "map fst ?new = map (\<lambda>j. (?c + j) mod ?n) [0..<length ?new]"
      using n(3) rotation_Cons[OF Cons.prems(1), of "length new"] by simp
    have cur: "current_provider_index s' = (?c + length ?new) mod ?n"
      using n(4) by (simp add: mod_add_left_eq)
    have res: "(case r of
                Inr response \<Rightarrow> \<exists>pre i. ?new = pre @ [(i, Inr response)] \<and> list_all (isl \<circ> snd) pre
              | Inl e \<Rightarrow> length ?new = length (i # rest) \<and> list_all (isl \<circ> snd) ?new
                  \<and> ((?new = [] \<and> e = PyExc ''ValueError''
                         (''All LLM providers failed. Last error: '' @ str_opt_exc last_error))
                     \<or> (\<exists>pre i e'. ?new = pre @ [(i, Inl e')] \<and> e = PyExc ''ValueError''
                           (''All LLM providers failed. Last error: '' @ exc_str e'))))"
    proof (cases r)
      case (Inr response)
      with n(6) obtain pre j where "new = pre @ [(j, Inr response)]" "list_all (isl \<circ> snd) pre"
        by auto
      then have "?new = ((?c, Inl e0) # pre) @ [(j, Inr response)]
          \<and> list_all (isl \<circ> snd) ((?c, Inl e0) # pre)" by simp
      then have "\<exists>pre i. ?new = pre @ [(i, Inr response)] \<and> list_all (isl \<circ> snd) pre" by blast
      with Inr show ?thesis by simp
    next
      case (Inl e)
      with n(6) have a: "length new = length rest" "list_all (isl \<circ> snd) new"
        and b: "(new = [] \<and> e = PyExc ''ValueError''
                         (''All LLM providers failed. Last error: '' @ str_opt_exc (Some e0)))
                     \<or> (\<exists>pre i e'. new = pre @ [(i, Inl e')] \<and> e = PyExc ''ValueError''
                           (''All LLM providers failed. Last error: '' @ exc_str e'))"
        by auto
      from b have "\<exists>pre i e'. ?new = pre @ [(i, Inl e')] \<and> e = PyExc ''ValueError''
                           (''All LLM providers failed. Last error: '' @ exc_str e')"
      proof
        assume "new = [] \<and> e = PyExc ''ValueError''
                         (''All LLM providers failed. Last error: '' @ str_opt_exc (Some e0))"
        then have "?new = [] @ [(?c, Inl e0)] \<and> e = PyExc ''ValueError''
                           (''All LLM providers failed. Last error: '' @ exc_str e0)" by simp
        then show ?thesis by blast
      next
        assume "\<exists>pre i e'. new = pre @ [(i, Inl e')] \<and> e = PyExc ''ValueError''
                           (''All LLM providers failed. Last error: '' @ exc_str e')"
        then obtain pre j e' where "new = pre @ [(j, Inl e')]" "e = PyExc ''ValueError''
                           (''All LLM providers failed. Last error: '' @ exc_str e')" by blast
        then have "?new = ((?c, Inl e0) # pre) @ [(j, Inl e')] \<and> e = PyExc ''ValueError''
                           (''All LLM providers failed. Last error: '' @ exc_str e')" by simp
        then show ?thesis by blast
      qed
      with Inl a show ?thesis by simp
    qed
    from log len idx cur n(5) res show ?thesis
      by (intro exI[of _ ?new]) (intro conjI)
  qed
qed



lemma generate_response_char:
  assumes "current_provider_index s < length (providers s)"
      and "generate_response req s = (r, s')"
  shows "attempted s' = attempted s @ new_attempts s s'"
    and "length (new_attempts s s') \<le> length (providers s)"
    and "map fst (new_attempts s s') =
           map (\<lambda>j. (current_provider_index s + j) mod length (providers s))
             [0..<length (new_attempts s s')]"
    and "current_provider_index s' =
           (current_provider_index s + length (new_attempts s s')) mod length (providers s)"
    and "providers s' = providers s"
    and "isl r \<Longrightarrow> length (new_attempts s s') = length (providers s)
           \<and> (\<exists>pre i e'. new_attempts s s' = pre @ [(i, Inl e')] \<and> r = Inl (PyExc ''ValueError''
                           (''All LLM providers failed. Last error: '' @ exc_str e')))"
proof -
  from assms(1) have ne: "providers s \<noteq> []" by auto
  with assms(2) have run: "provider_loop req [0..<length (providers s)] None s = (r, s')"
    by (simp add: generate_response_def)
  from provider_loop_char[OF assms(1) run] obtain new where n:
    "attempted s' = attempted s @ new" "length new \<le> length [0..<length (providers s)]"
    "map fst new = map (\<lambda>j. (current_provider_index s + j) mod length (providers s))
                             [0..<length new]"
    "current_provider_index s' =
                (current_provider_index s + length new) mod length (providers s)"
    "providers s' = providers s"
    "(case r of
                Inr response \<Rightarrow> \<exists>pre i. new = pre @ [(i, Inr response)] \<and> list_all (isl \<circ> snd) pre
              | Inl e \<Rightarrow> length new = length [0..<length (providers s)] \<and> list_all (isl \<circ> snd) new
                  \<and> ((new = [] \<and> e = PyExc ''ValueError''
                         (''All LLM providers failed. Last error: '' @ str_opt_exc None))
                     \<or> (\<exists>pre i e'. new = pre @ [(i, Inl e')] \<and> e = PyExc ''ValueError''
                           (''All LLM providers failed. Last error: '' @ exc_str e'))))"
    by blast
  from n(1) have eq: "new_attempts s s' = new" by (simp add: new_attempts_def)
  show "attempted s' = attempted s @ new_attempts s s'" using n(1) eq by simp
  show "length (new_attempts s s') \<le> length (providers s)" using n(2) eq by simp
  show "map fst (new_attempts s s') =
           map (\<lambda>j. (current_provider_index s + j) mod length (providers s))
             [0..<length (new_attempts s s')]" using n(3) eq by simp
  show "current_provider_index s' =
           (current_provider_index s + length (new_attempts s s')) mod length (providers s)"
    using n(4) eq by simp
  show "providers s' = providers s" by (rule n(5))
  show "length (new_attempts s s') = length (providers s)
           \<and> (\<exists>pre i e'. new_attempts s s' = pre @ [(i, Inl e')] \<and> r = Inl (PyExc ''ValueError''
                           (''All LLM providers failed. Last error: '' @ exc_str e')))" if "isl r"
  proof -
    from that obtain e where r: "r = Inl e" by (auto simp: isl_def)
    with n(6) have l: "length new = length (providers s)" by simp
    with ne have "new \<noteq> []" by auto
    with n(6) r have "\<exists>pre i e'. new = pre @ [(i, Inl e')] \<and> e = PyExc ''ValueError''
                           (''All LLM providers failed. Last error: '' @ exc_str e')" by simp
    with l r eq show ?thesis by simp
  qed
qed

text \<open>
  Claim C4. With providers \<open>[A, B, C]\<close> and the cursor at \<open>A\<close>'s index, a call in which
  \<open>A\<close> and \<open>B\<close> fail and \<open>C\<close> succeeds attempts \<open>A\<close>, then \<open>B\<close>, then \<open>C\<close>, returns
  \<open>C\<close>'s text and leaves the cursor at the position after \<open>C\<close>'s index modulo 3. In every
  call, the attempts are made at consecutive positions modulo the provider count starting
  from the cursor, and the cursor ends advanced by one position per attempt, whether the
  attempt failed or succeeded.
\<close>

theorem generate_response_rotation:
  "(providers s = [A, B, C] \<and> current_provider_index s = 0
      \<and> A req (world s) = (Inl ea, w1) \<and> B req w1 = (Inl eb, w2) \<and> C req w2 = (Inr answer, w3) \<longrightarrow>
      generate_response req s =
        (Inr answer,
         s\<lparr>world := w3,
           attempted := attempted s @ [(0, Inl ea), (1, Inl eb), (2, Inr answer)],
           current_provider_index := (2 + 1) mod 3\<rparr>))
   \<and> (current_provider_index s < length (providers s) \<longrightarrow>
        (case generate_response req s of
           (r, s') \<Rightarrow>
             attempted s' = attempted s @ new_attempts s s'
             \<and> map fst (new_attempts s s') =
                 map (\<lambda>j. (current_provider_index s + j) mod length (providers s))
                   [0..<length (new_attempts s s')]
             \<and> current_provider_index s' =
                 (current_provider_index s + length (new_attempts s s')) mod length (providers s)
             \<and> providers s' = providers s
             \<and> current_provider_index s' < length (providers s')))"
proof (intro conjI impI)
  assume a: "providers s = [A, B, C] \<and> current_provider_index s = 0
      \<and> A req (world s) = (Inl ea, w1) \<and> B req w1 = (Inl eb, w2) \<and> C req w2 = (Inr answer, w3)"
  have u: "[0..<length [A, B, C]] = [0, 1, 2]" by (simp add: upt_rec)
  from a show "generate_response req s =
        (Inr answer,
         s\<lparr>world := w3,
           attempted := attempted s @ [(0, Inl ea), (1, Inl eb), (2, Inr answer)],
           current_provider_index := (2 + 1) mod 3\<rparr>)"
    by (simp add: generate_response_def u)
next
  assume inv: "current_provider_index s < length (providers s)"
  obtain r s' where run: "generate_response req s = (r, s')" by (cases "generate_response req s")
  note c = generate_response_char[OF inv run]
  from inv have "0 < length (providers s)" by (cases "providers s") auto
  with c(4,5) have "current_provider_index s' < length (providers s')" by simp
  with c(1,3,4,5) show "case generate_response req s of
           (r, s') \<Rightarrow>
             attempted s' = attempted s @ new_attempts s s'
             \<and> map fst (new_attempts s s') =
                 map (\<lambda>j. (current_provider_index s + j) mod length (providers s))
                   [0..<length (new_attempts s s')]
             \<and> current_provider_index s' =
                 (current_provider_index s + length (new_attempts s s')) mod length (providers s)
             \<and> providers s' = providers s
             \<and> current_provider_index s' < length (providers s')"
    unfolding run by simp
qed


theorem generate_response_rotation_witness:
  "providers (sample_service [failing_provider ''a'', failing_provider ''b'', answering_provider ''c''] 0)
      = [failing_provider ''a'', failing_provider ''b'', answering_provider ''c'']
   \<and> failing_provider ''a'' sample_request 0 = (Inl (PyExc ''RuntimeError'' ''a''), 1)
   \<and> failing_provider ''b'' sample_request 1 = (Inl (PyExc ''RuntimeError'' ''b''), 2)
   \<and> answering_provider ''c'' sample_request 2 = (Inr ''c'', 3)
   \<and> generate_response sample_request
        (sample_service [failing_provider ''a'', failing_provider ''b'', answering_provider ''c''] 0)
      = (Inr ''c'',
         \<lparr>providers = [failing_provider ''a'', failing_provider ''b'', answering_provider ''c''],
          current_provider_index = 0, world = 3,
          attempted = [(0, Inl (PyExc ''RuntimeError'' ''a'')), (1, Inl (PyExc ''RuntimeError'' ''b'')),
                       (2, Inr ''c'')]\<rparr>)
   \<and> current_provider_index
        (sample_service [failing_provider ''a'', answering_provider ''b'', failing_provider ''c''] 2) < 3
   \<and> map fst (attempted (snd (generate_response sample_request
        (sample_service [failing_provider ''a'', answering_provider ''b'', failing_provider ''c''] 2))))
      = [2, 0, 1]
   \<and> current_provider_index (snd (generate_response sample_request
        (sample_service [failing_provider ''a'', answering_provider ''b'', failing_provider ''c''] 2)))
      = 2"
  using generate_response_rotation [where s = "sample_service
        [failing_provider ''a'', failing_provider ''b'', answering_provider ''c''] 0"
      and A = "failing_provider ''a''" and B = "failing_provider ''b''"
      and C = "answering_provider ''c''" and req = sample_request
      and ea = "PyExc ''RuntimeError'' ''a''" and eb = "PyExc ''RuntimeError'' ''b''"
      and answer = "''c''" and ?w1.0 = 1 and ?w2.0 = 2 and ?w3.0 = 3]
    generate_response_rotation [where s = "sample_service
        [failing_provider ''a'', answering_provider ''b'', failing_provider ''c''] 2"
      and A = "failing_provider ''a''" and B = "failing_provider ''b''"
      and C = "answering_provider ''c''" and req = sample_request
      and ea = "PyExc ''RuntimeError'' ''a''" and eb = "PyExc ''RuntimeError'' ''b''"
      and answer = "''c''" and ?w1.0 = 1 and ?w2.0 = 2 and ?w3.0 = 3]
  by (simp add: sample_service_def failing_provider_def answering_provider_def
        generate_response_def new_attempts_def upt_rec)


section \<open>Properties of the evaluation engine\<close>

lemma run_checks_frame:
  "total_checks (results (run_checks br cs st)) = total_checks (results st)
   \<and> score (results (run_checks br cs st)) = score (results st)
   \<and> errors (results (run_checks br cs st)) = errors (results st)
   \<and> url (results (run_checks br cs st)) = url (results st)
   \<and> executed (run_checks br cs st) = executed st @ cs"
  by (induction cs arbitrary: st) (auto split: prod.splits)

lemma run_checks_counts:
  "length (checks_passed (results (run_checks br cs st)))
     + length (checks_failed (results (run_checks br cs st)))
   = length (checks_passed (results st)) + length (checks_failed (results st)) + length cs"
  by (induction cs arbitrary: st) (auto split: prod.splits)

lemma run_checks_passed_le:
  "length (checks_passed (results (run_checks br cs st)))
     \<le> length (checks_passed (results st)) + length cs"
proof (induction cs arbitrary: st)
  case Nil
  show ?case by simp
next
  case (Cons check rest)
  obtain cr page' where rc: "run_check br (page_of st) check = (cr, page')"
    by (cases "run_check br (page_of st) check")
  show ?case
    using Cons.IH[of "st\<lparr>page_of := page', executed := executed st @ [check],
        results := (if passed cr
                   then (results st)\<lparr>checks_passed := checks_passed (results st) @ [check]\<rparr>
                   else (results st)\<lparr>checks_failed := checks_failed (results st)
                          @ [(check, get_reason (reason cr))]\<rparr>)\<rparr>"] rc
    by (simp split: if_splits)
qed

lemma evaluate_page_score:
  assumes "evaluate_page br site_url check_list timeout = (r, ex)"
  shows "total_checks r = length check_list"
    and "length (checks_passed r) \<le> length check_list"
    and "score r = (if check_list = [] then 0 else real (length (checks_passed r)) / real (length check_list))"
proof -
  let ?results0 = "\<lparr>url = site_url, checks_passed = [], checks_failed = [],
                       total_checks = length check_list, score = 0, screenshot = None, errors = []\<rparr>"
  let ?st = "\<lambda>page2. run_checks br check_list \<lparr>page_of = page2, results = ?results0, executed = []\<rparr>"
  have le: "length (checks_passed (results (?st page2))) \<le> length check_list" for page2
    using run_checks_passed_le[of br check_list "\<lparr>page_of = page2, results = ?results0, executed = []\<rparr>"]
    by simp
  have tot: "total_checks (results (?st page2)) = length check_list" for page2
    using run_checks_frame[of br check_list "\<lparr>page_of = page2, results = ?results0, executed = []\<rparr>"]
    by simp
  have sc: "score (results (?st page2)) = 0" for page2
    using run_checks_frame[of br check_list "\<lparr>page_of = page2, results = ?results0, executed = []\<rparr>"]
    by simp
  from assms show "total_checks r = length check_list"
    by (auto simp: evaluate_page_def Let_def tot split: sum.splits prod.splits if_splits)
  from assms show "length (checks_passed r) \<le> length check_list"
    by (auto simp: evaluate_page_def Let_def le split: sum.splits prod.splits if_splits)
  from assms show "score r = (if check_list = [] then 0 else real (length (checks_passed r)) / real (length check_list))"
    by (auto simp: evaluate_page_def Let_def tot sc split: sum.splits prod.splits if_splits)
qed


lemma evaluate_page_aborted:
  assumes "new_page br = Inr page" "goto br site_url timeout page = (nav, page1)"
    "nav \<noteq> Inr (Some 200)"
  shows "evaluate_page br site_url check_list timeout =
           (\<lparr>url = site_url, checks_passed = [], checks_failed = [],
             total_checks = length check_list, score = 0, screenshot = None,
             errors = [case nav of
                         Inl e \<Rightarrow> ''Failed to load page: '' @ exc_str e
                       | Inr None \<Rightarrow> ''Page returned status None''
                       | Inr (Some status) \<Rightarrow> ''Page returned status '' @ str_of_int status]\<rparr>, [])"
  using assms
  by (cases nav) (auto simp: evaluate_page_def Let_def split: option.splits)

lemma evaluate_page_loaded:
  assumes "new_page br = Inr page" "goto br site_url timeout page = (Inr (Some 200), page1)"
    "wait_for_load_state br page1 = (Inr u, page2)"
    "evaluate_page br site_url check_list timeout = (r, ex)"
  shows "ex = check_list"
    and "length (checks_passed r) + length (checks_failed r) = length check_list"
proof -
  let ?results0 = "\<lparr>url = site_url, checks_passed = [], checks_failed = [],
                       total_checks = length check_list, score = 0, screenshot = None, errors = []\<rparr>"
  let ?st = "run_checks br check_list \<lparr>page_of = page2, results = ?results0, executed = []\<rparr>"
  have e: "executed ?st = check_list"
    using run_checks_frame[of br check_list "\<lparr>page_of = page2, results = ?results0, executed = []\<rparr>"]
    by simp
  have c: "length (checks_passed (results ?st)) + length (checks_failed (results ?st)) = length check_list"
    using run_checks_counts[of br check_list "\<lparr>page_of = page2, results = ?results0, executed = []\<rparr>"]
    by simp
  from assms e show "ex = check_list"
    by (auto simp: evaluate_page_def Let_def split: sum.splits prod.splits if_splits)
  from assms c show "length (checks_passed r) + length (checks_failed r) = length check_list"
    by (auto simp: evaluate_page_def Let_def split: sum.splits prod.splits if_splits)
qed

text \<open>
  Claim C2. When the page was opened and the navigation fails, by raising (a timeout, for
  one) or with a response whose status is not 2xx, \<open>evaluate_page\<close> returns the results
  with no passed check, no failed check, score 0 and exactly one error, the navigation
  error; no check was run. The second part states the same under the condition the code
  tests, which is wider: any outcome of the navigation other than a response of status
  200. The third part is the case where the page cannot be opened at all.
\<close>

theorem evaluate_page_navigation_failure:
  "(new_page br = Inr page \<and> goto br site_url timeout page = (nav, page1)
      \<and> (isl nav \<or> (\<exists>status. nav = Inr (Some status) \<and> (status < 200 \<or> 300 \<le> status))) \<longrightarrow>
      evaluate_page br site_url check_list timeout =
        (\<lparr>url = site_url, checks_passed = [], checks_failed = [],
          total_checks = length check_list, score = 0, screenshot = None,
          errors = [case nav of
                      Inl e \<Rightarrow> ''Failed to load page: '' @ exc_str e
                    | Inr None \<Rightarrow> ''Page returned status None''
                    | Inr (Some status) \<Rightarrow> ''Page returned status '' @ str_of_int status]\<rparr>, []))
   \<and> (new_page br = Inr page \<and> goto br site_url timeout page = (nav, page1)
        \<and> nav \<noteq> Inr (Some 200) \<longrightarrow>
        evaluate_page br site_url check_list timeout =
          (\<lparr>url = site_url, checks_passed = [], checks_failed = [],
            total_checks = length check_list, score = 0, screenshot = None,
            errors = [case nav of
                        Inl e \<Rightarrow> ''Failed to load page: '' @ exc_str e
                      | Inr None \<Rightarrow> ''Page returned status None''
                      | Inr (Some status) \<Rightarrow> ''Page returned status '' @ str_of_int status]\<rparr>, []))
   \<and> (new_page br = Inl e \<longrightarrow>
        evaluate_page br site_url check_list timeout =
          (\<lparr>url = site_url, checks_passed = [], checks_failed = [],
            total_checks = length check_list, score = 0, screenshot = None,
            errors = [exc_str e]\<rparr>, []))"
proof (intro conjI impI)
  assume "new_page br = Inl e"
  then show "evaluate_page br site_url check_list timeout =
          (\<lparr>url = site_url, checks_passed = [], checks_failed = [],
            total_checks = length check_list, score = 0, screenshot = None,
            errors = [exc_str e]\<rparr>, [])"
    by (simp add: evaluate_page_def)
next
  assume a: "new_page br = Inr page \<and> goto br site_url timeout page = (nav, page1)
      \<and> (isl nav \<or> (\<exists>status. nav = Inr (Some status) \<and> (status < 200 \<or> 300 \<le> status)))"
  then have "nav \<noteq> Inr (Some 200)" by auto
  with a show "evaluate_page br site_url check_list timeout =
        (\<lparr>url = site_url, checks_passed = [], checks_failed = [],
          total_checks = length check_list, score = 0, screenshot = None,
          errors = [case nav of
                      Inl e \<Rightarrow> ''Failed to load page: '' @ exc_str e
                    | Inr None \<Rightarrow> ''Page returned status None''
                    | Inr (Some status) \<Rightarrow> ''Page returned status '' @ str_of_int status]\<rparr>, [])"
    by (intro evaluate_page_aborted) auto
next
  assume a: "new_page br = Inr page \<and> goto br site_url timeout page = (nav, page1)
        \<and> nav \<noteq> Inr (Some 200)"
  then show "evaluate_page br site_url check_list timeout =
        (\<lparr>url = site_url, checks_passed = [], checks_failed = [],
          total_checks = length check_list, score = 0, screenshot = None,
          errors = [case nav of
                      Inl e \<Rightarrow> ''Failed to load page: '' @ exc_str e
                    | Inr None \<Rightarrow> ''Page returned status None''
                    | Inr (Some status) \<Rightarrow> ''Page returned status '' @ str_of_int status]\<rparr>, [])"
    by (intro evaluate_page_aborted) auto
qed

text \<open>
  Claim C3. For a non-empty check list the score is the number of passed check_list divided by
  the number of check_list and lies between 0 and 1, on every path (after a successful
  navigation in particular); for an empty check list the score is 0. When the page was
  loaded, every check was run, in input order, and each is counted as passed or as failed.
\<close>

theorem evaluate_page_score_fraction:
  "(case evaluate_page br site_url check_list timeout of
      (r, ex) \<Rightarrow>
        (check_list \<noteq> [] \<longrightarrow>
           score r = real (length (checks_passed r)) / real (length check_list)
           \<and> 0 \<le> score r \<and> score r \<le> 1)
        \<and> (check_list = [] \<longrightarrow> score r = 0)
        \<and> total_checks r = length check_list
        \<and> (new_page br = Inr page \<and> goto br site_url timeout page = (Inr (Some 200), page1)
             \<and> wait_for_load_state br page1 = (Inr u, page2) \<longrightarrow>
             ex = check_list
             \<and> length (checks_passed r) + length (checks_failed r) = length check_list))"
proof -
  obtain r ex where run: "evaluate_page br site_url check_list timeout = (r, ex)"
    by (cases "evaluate_page br site_url check_list timeout")
  note s = evaluate_page_score[OF run]
  have "score r = real (length (checks_passed r)) / real (length check_list)
           \<and> 0 \<le> score r \<and> score r \<le> 1" if "check_list \<noteq> []"
  proof -
    from that s(3) have eq: "score r = real (length (checks_passed r)) / real (length check_list)"
      by simp
    from that have pos: "0 < real (length check_list)" by simp
    from s(2) have "real (length (checks_passed r)) \<le> real (length check_list)" by simp
    with pos have "real (length (checks_passed r)) / real (length check_list) \<le> 1"
      by (simp add: divide_le_eq_1)
    moreover have "0 \<le> real (length (checks_passed r)) / real (length check_list)" by simp
    ultimately show ?thesis using eq by simp
  qed
  moreover have "score r = 0" if "check_list = []" using that s(3) by simp
  moreover have "ex = check_list
             \<and> length (checks_passed r) + length (checks_failed r) = length check_list"
    if "new_page br = Inr page \<and> goto br site_url timeout page = (Inr (Some 200), page1)
             \<and> wait_for_load_state br page1 = (Inr u, page2)"
    using that evaluate_page_loaded[OF _ _ _ run, of page page1 u page2] by simp
  ultimately show ?thesis unfolding run using s(1) by blast
qed

lemma str_of_int_404: "str_of_int 404 = ''404''"
  by code_simp

theorem evaluate_page_navigation_failure_witness:
  "new_page (sample_browser 404) = Inr 0
   \<and> goto (sample_browser 404) ''https://u.github.io/r/'' 30000 0 = (Inr (Some 404), 1)
   \<and> ((404::int) < 200 \<or> (300::int) \<le> 404)
   \<and> evaluate_page (sample_browser 404) ''https://u.github.io/r/'' [''js: true'', ''has a title''] 30000 =
        (\<lparr>url = ''https://u.github.io/r/'', checks_passed = [], checks_failed = [],
          total_checks = 2, score = 0, screenshot = None,
          errors = [''Page returned status 404'']\<rparr>, [])
   \<and> new_page unreachable_browser = Inr 0
   \<and> isl (fst (goto unreachable_browser ''https://u.github.io/r/'' 30000 0))
   \<and> evaluate_page unreachable_browser ''https://u.github.io/r/'' [''js: true'', ''has a title''] 30000 =
        (\<lparr>url = ''https://u.github.io/r/'', checks_passed = [], checks_failed = [],
          total_checks = 2, score = 0, screenshot = None,
          errors = [''Failed to load page: Timeout 30000ms exceeded'']\<rparr>, [])
   \<and> new_page closed_browser = Inl (PyExc ''Error'' ''Browser has been closed'')
   \<and> evaluate_page closed_browser ''https://u.github.io/r/'' [''js: true'', ''has a title''] 30000 =
        (\<lparr>url = ''https://u.github.io/r/'', checks_passed = [], checks_failed = [],
          total_checks = 2, score = 0, screenshot = None,
          errors = [''Browser has been closed'']\<rparr>, [])"
proof -
  have h3: "new_page closed_browser = Inl (PyExc ''Error'' ''Browser has been closed'')"
    by (simp add: closed_browser_def)
  have h1: "new_page (sample_browser 404) = Inr 0
      \<and> goto (sample_browser 404) ''https://u.github.io/r/'' 30000 0 = (Inr (Some 404), 1)
      \<and> (isl (Inr (Some 404) :: int option outcome)
          \<or> (\<exists>status. (Inr (Some 404) :: int option outcome) = Inr (Some status)
                \<and> (status < 200 \<or> 300 \<le> status)))"
    by (simp add: sample_browser_def)
  have h2: "new_page unreachable_browser = Inr 0
      \<and> goto unreachable_browser ''https://u.github.io/r/'' 30000 0
          = (Inl (PyExc ''TimeoutError'' ''Timeout 30000ms exceeded''), 1)
      \<and> (isl (Inl (PyExc ''TimeoutError'' ''Timeout 30000ms exceeded'') :: int option outcome)
          \<or> (\<exists>status. (Inl (PyExc ''TimeoutError'' ''Timeout 30000ms exceeded'') :: int option outcome)
                = Inr (Some status) \<and> (status < 200 \<or> 300 \<le> status)))"
    by (simp add: sample_browser_def unreachable_browser_def)
  from evaluate_page_navigation_failure [THEN conjunct1, rule_format, OF h1,
      of "[''js: true'', ''has a title'']"]
    evaluate_page_navigation_failure [THEN conjunct1, rule_format, OF h2,
      of "[''js: true'', ''has a title'']"]
    evaluate_page_navigation_failure [THEN conjunct2, THEN conjunct2, rule_format, OF h3,
      of "''https://u.github.io/r/''" "[''js: true'', ''has a title'']" 30000]
    h1 h2 h3
  show ?thesis by (simp add: str_of_int_404)
qed

theorem evaluate_page_score_fraction_witness:
  "[''js: true'', ''js:false'', ''has a title''] \<noteq> []
   \<and> new_page (sample_browser 200) = Inr 0
   \<and> goto (sample_browser 200) ''https://u.github.io/r/'' 30000 0 = (Inr (Some 200), 1)
   \<and> wait_for_load_state (sample_browser 200) 1 = (Inr (), 2)
   \<and> evaluate_page (sample_browser 200) ''https://u.github.io/r/''
        [''js: true'', ''js:false'', ''has a title''] 30000 =
        (\<lparr>url = ''https://u.github.io/r/'', checks_passed = [''js: true'', ''has a title''],
          checks_failed = [(''js:false'', Some ''JS expression returned: false'')],
          total_checks = 3, score = 2 / 3, screenshot = Some ''png'', errors = []\<rparr>,
         [''js: true'', ''js:false'', ''has a title''])
   \<and> score (fst (evaluate_page (sample_browser 200) ''https://u.github.io/r/'' [] 30000)) = 0"
  using evaluate_page_score_fraction [where br = "sample_browser 200" and page = 0
      and site_url = "''https://u.github.io/r/''" and timeout = 30000
      and ?page1.0 = 1 and ?page2.0 = 2 and u = "()"
      and check_list = "[''js: true'', ''js:false'', ''has a title'']"]
    evaluate_page_score_fraction [where br = "sample_browser 200" and page = 0
      and site_url = "''https://u.github.io/r/''" and timeout = 30000
      and ?page1.0 = 1 and ?page2.0 = 2 and u = "()" and check_list = "[]"]
  by (simp add: sample_browser_def evaluate_page_def run_check_def run_js_check_def py_strip_def
        py_isspace_def Let_def)

section \<open>Properties of the phase pipeline\<close>

lemma keeps_returns: "keeps obs (returns v)"
  by (simp add: keeps_def returns_def)

lemma keeps_raises: "keeps obs (raises e)"
  by (simp add: keeps_def raises_def)

lemma keeps_then_do:
  assumes "keeps obs m" "\<And>v. keeps obs (f v)"
  shows "keeps obs (then_do m f)"
  unfolding keeps_def
proof
  fix s
  obtain r s1 where m: "m s = (r, s1)" by (cases "m s")
  from assms(1) m have o: "obs s1 = obs s" by (auto simp: keeps_def dest: spec[of _ s])
  show "obs (snd (then_do m f s)) = obs s"
  proof (cases r)
    case (Inl e)
    with m o show ?thesis by (simp add: then_do_def)
  next
    case (Inr v)
    from assms(2)[of v] have "obs (snd (f v s1)) = obs s1" by (simp add: keeps_def)
    with Inr m o show ?thesis by (simp add: then_do_def)
  qed
qed

lemma keeps_try_except:
  assumes "keeps obs m" "\<And>e. keeps obs (h e)"
  shows "keeps obs (try_except m h)"
  unfolding keeps_def
proof
  fix s
  obtain r s1 where m: "m s = (r, s1)" by (cases "m s")
  from assms(1) m have o: "obs s1 = obs s" by (auto simp: keeps_def dest: spec[of _ s])
  show "obs (snd (try_except m h s)) = obs s"
  proof (cases r)
    case (Inr v)
    with m o show ?thesis by (simp add: try_except_def)
  next
    case (Inl e)
    from assms(2)[of e] have "obs (snd (h e s1)) = obs s1" by (simp add: keeps_def)
    with Inl m o show ?thesis by (simp add: try_except_def)
  qed
qed

lemma keeps_lift_outside:
  assumes "\<And>s w. obs (s\<lparr>outside := w\<rparr>) = obs s"
  shows "keeps obs (lift_outside f)"
  using assms by (simp add: keeps_def lift_outside_def split: prod.splits)

lemma keeps_post_with_retry:
  assumes "\<And>s w. obs (s\<lparr>outside := w\<rparr>) = obs s"
  shows "keeps obs (post_with_retry C target json_data max_attempts timeout)"
  using assms by (simp add: keeps_def post_with_retry_def split: prod.splits)

lemma keeps_send_evaluation_callback:
  assumes "\<And>s w. obs (s\<lparr>outside := w\<rparr>) = obs s"
  shows "keeps obs (send_evaluation_callback C task deployment_result)"
  unfolding send_evaluation_callback_def
  by (auto intro!: keeps_returns keeps_try_except keeps_then_do keeps_post_with_retry assms)

lemma keeps_orch_deploy_application:
  assumes "\<And>s w. obs (s\<lparr>outside := w\<rparr>) = obs s"
  shows "keeps obs (orch_deploy_application C task fs)"
  unfolding orch_deploy_application_def
  by (intro keeps_then_do keeps_lift_outside keeps_send_evaluation_callback keeps_returns assms)

lemma keeps_create_workspace:
  assumes "\<And>s w. obs (s\<lparr>outside := w\<rparr>) = obs s"
    "\<And>s d. obs (s\<lparr>dirs := d\<rparr>) = obs s" "\<And>s d. obs (s\<lparr>workspaces := d\<rparr>) = obs s"
  shows "keeps obs (create_workspace C workspace_path)"
  unfolding create_workspace_def
  by (intro keeps_then_do) (auto simp: keeps_def assms split: option.splits)

lemma keeps_act_phase_body:
  assumes "\<And>s w. obs (s\<lparr>outside := w\<rparr>) = obs s"
    "\<And>s d. obs (s\<lparr>dirs := d\<rparr>) = obs s" "\<And>s d. obs (s\<lparr>workspaces := d\<rparr>) = obs s"
  shows "keeps obs (act_phase_body C task ws_id workspace_path)"
  unfolding act_phase_body_def Let_def
  by (intro keeps_then_do keeps_create_workspace keeps_lift_outside keeps_orch_deploy_application
        keeps_returns assms)

lemma keeps_cleanup_log_round2_body:
  "keeps cleanup_log (round2_body C task existing_repo_url ws_id workspace_path)"
proof -
  have u: "keeps cleanup_log (call_update_application C task workspace_path fs)" for fs
    by (simp add: keeps_def call_update_application_def lift_outside_def split: prod.splits)
  have i: "keeps cleanup_log (\<lambda>s. (py_index xs i, s))" for xs :: "string list" and i
    by (simp add: keeps_def)
  show ?thesis
    unfolding round2_body_def Let_def
    by (intro keeps_then_do keeps_create_workspace keeps_lift_outside keeps_send_evaluation_callback
        keeps_returns u i) simp_all
qed

lemma cleanup_workspace_returns: "fst (cleanup_workspace C p s1) = Inr ()"
  by (cases "rmtree_error C p (outside s1)")
     (auto simp: cleanup_workspace_def Let_def try_except_def then_do_def returns_def)

lemma cleanup_workspace_frame:
  "cleanup_log (snd (cleanup_workspace C p s1)) = cleanup_log s1 @ [p]"
  "outside (snd (cleanup_workspace C p s1)) = outside s1"
  "update_log (snd (cleanup_workspace C p s1)) = update_log s1"
  by (cases "rmtree_error C p (outside s1)";
      auto simp: cleanup_workspace_def Let_def try_except_def then_do_def returns_def)+

lemma cleanup_workspace_removed:
  "rmtree_error C p (outside s1) = None \<Longrightarrow>
     p \<notin> dirs (snd (cleanup_workspace C p s1)) \<and> p \<notin> workspaces (snd (cleanup_workspace C p s1))"
  by (auto simp: cleanup_workspace_def Let_def try_except_def then_do_def returns_def)

lemma cleanup_workspace_failed:
  "p \<in> dirs s1 \<Longrightarrow> rmtree_error C p (outside s1) = Some e \<Longrightarrow>
     dirs (snd (cleanup_workspace C p s1)) = dirs s1
     \<and> workspaces (snd (cleanup_workspace C p s1)) = workspaces s1"
  by (auto simp: cleanup_workspace_def Let_def try_except_def then_do_def returns_def)

lemma try_finally_cleanup:
  "try_finally body (cleanup_workspace C p) s0 =
     (fst (body s0), snd (cleanup_workspace C p (snd (body s0))))"
proof -
  obtain r1 s1 where b: "body s0 = (r1, s1)" by (cases "body s0")
  obtain rc s2 where c: "cleanup_workspace C p s1 = (rc, s2)" by (cases "cleanup_workspace C p s1")
  from cleanup_workspace_returns[of C p s1] c have "rc = Inr ()" by simp
  with b c show ?thesis by (simp add: try_finally_def)
qed

text \<open>
  Claim C8, as amended. In every run of the Act phase, whether the body returns or raises,
  \<open>cleanup_workspace\<close> is called exactly once, with the workspace path of this run; and
  when the removal of the directory does not fail, no workspace directory and no tracking
  entry remain afterwards.
\<close>

theorem act_phase_cleanup_exactly_once:
  "(case uuid4 C (outside s) of
      (ws_id, w) \<Rightarrow>
        (case act_phase C task plan s of
           (r, s') \<Rightarrow>
             cleanup_log s' = cleanup_log s @ [''/tmp/workspace_'' @ ws_id]
             \<and> (rmtree_error C (''/tmp/workspace_'' @ ws_id) (outside s') = None \<longrightarrow>
                  ''/tmp/workspace_'' @ ws_id \<notin> dirs s'
                  \<and> ''/tmp/workspace_'' @ ws_id \<notin> workspaces s')))"
proof -
  obtain ws_id w where u: "uuid4 C (outside s) = (ws_id, w)" by (cases "uuid4 C (outside s)")
  let ?p = "''/tmp/workspace_'' @ ws_id"
  let ?s0 = "s\<lparr>outside := w\<rparr>"
  let ?s1 = "snd (act_phase_body C task ws_id ?p ?s0)"
  let ?s2 = "snd (cleanup_workspace C ?p ?s1)"
  have "keeps cleanup_log (act_phase_body C task ws_id ?p)"
    by (rule keeps_act_phase_body) simp_all
  then have l1: "cleanup_log ?s1 = cleanup_log s"
    by (auto simp: keeps_def dest: spec[of _ ?s0])
  from u have run: "act_phase C task plan s = (fst (act_phase_body C task ws_id ?p ?s0), ?s2)"
    by (simp add: act_phase_def try_finally_cleanup)
  have "cleanup_log ?s2 = cleanup_log s @ [?p]"
    using cleanup_workspace_frame(1)[of C ?p ?s1] l1 by simp
  moreover have "?p \<notin> dirs ?s2 \<and> ?p \<notin> workspaces ?s2"
    if "rmtree_error C ?p (outside ?s2) = None"
    using that cleanup_workspace_removed[of C ?p ?s1] cleanup_workspace_frame(2)[of C ?p ?s1]
    by simp
  ultimately show ?thesis unfolding u run by simp
qed





lemma str_of_nat_0: "str_of_nat 0 = ''0''"
  by code_simp

text \<open>
  The paths of \<open>dispatch_task\<close> that lead to fresh processing: any round other than 2, and
  round 2 when the lookup gives no row, or a row without a repository.
\<close>

lemma dispatch_task_other_round:
  "round_number task \<noteq> 2 \<Longrightarrow>
     dispatch_task C task s = then_do (process_task C task) (\<lambda>r. returns (Report r)) s"
  by (simp add: dispatch_task_def)

lemma dispatch_task_fallback:
  assumes "round_number task = 2"
    and "get_task_by_task_id_and_round C (task_id task) 1 (outside s) = (Inr row, w)"
    and "resolved_repo_url row = None"
  shows "dispatch_task C task s =
           then_do (process_task C task) (\<lambda>r. returns (Report r)) (s\<lparr>outside := w\<rparr>)"
  using assms by (simp add: dispatch_task_def then_do_def lift_outside_def)

lemma dispatch_task_update:
  assumes "round_number task = 2"
    and "get_task_by_task_id_and_round C (task_id task) 1 (outside s) = (Inr row, w)"
    and "resolved_repo_url row = Some existing_repo_url"
  shows "dispatch_task C task s =
           then_do (process_round2_task C task existing_repo_url) (\<lambda>r. returns (Round2Result r))
             (s\<lparr>outside := w\<rparr>)"
  using assms by (simp add: dispatch_task_def then_do_def lift_outside_def)



text \<open>
  Claim C7. When the evaluation inside \<open>run_quality_checks\<close> raises an exception, the
  exception is not propagated: the quality checks are the fallback (score 1/2, nothing
  passed, every check of the task failed, one recommendation carrying the exception's
  text) and the Review phase returns the report built from it. In no case does
  \<open>run_quality_checks\<close> or the Review phase raise.
\<close>

theorem review_phase_evaluation_exception:
  "(quality_checks_body C result task s = (Inl e, s') \<longrightarrow>
      run_quality_checks C result task s =
        (Inr \<lparr>overall_score = 1 / 2, qc_passed = [], qc_failed = checks task,
              recommendations = [''Evaluation error: '' @ exc_str e], qc_screenshot = None\<rparr>, s')
      \<and> (case utc_now_iso C (outside s') of
           (now, w) \<Rightarrow>
             review_phase C task result s =
               (Inr \<lparr>report_task_id = task_id task, report_status = ''completed'',
                     report_deployment = act_deployment result, quality_score = 1 / 2,
                     report_checks_passed = [], report_checks_failed = checks task,
                     report_recommendations = [''Evaluation error: '' @ exc_str e],
                     completed_at = now\<rparr>,
                s'\<lparr>outside := w\<rparr>)))
   \<and> \<not> isl (fst (run_quality_checks C result task s))
   \<and> \<not> isl (fst (review_phase C task result s))"
proof (intro conjI impI)
  assume a: "quality_checks_body C result task s = (Inl e, s')"
  then show q: "run_quality_checks C result task s =
        (Inr \<lparr>overall_score = 1 / 2, qc_passed = [], qc_failed = checks task,
              recommendations = [''Evaluation error: '' @ exc_str e], qc_screenshot = None\<rparr>, s')"
    by (simp add: run_quality_checks_def try_except_def returns_def)
  show "case utc_now_iso C (outside s') of
           (now, w) \<Rightarrow>
             review_phase C task result s =
               (Inr \<lparr>report_task_id = task_id task, report_status = ''completed'',
                     report_deployment = act_deployment result, quality_score = 1 / 2,
                     report_checks_passed = [], report_checks_failed = checks task,
                     report_recommendations = [''Evaluation error: '' @ exc_str e],
                     completed_at = now\<rparr>,
                s'\<lparr>outside := w\<rparr>)"
    by (simp add: review_phase_def then_do_def q returns_def split: prod.splits)
next
  show q: "\<not> isl (fst (run_quality_checks C result task s))"
    by (simp add: run_quality_checks_def try_except_def returns_def split: prod.splits sum.splits)
  obtain r s1 where run: "run_quality_checks C result task s = (r, s1)"
    by (cases "run_quality_checks C result task s")
  with q obtain v where "r = Inr v" by (cases r) auto
  with run show "\<not> isl (fst (review_phase C task result s))"
    by (simp add: review_phase_def then_do_def returns_def split: prod.splits)
qed

lemma sample_review_browser_down:
  "quality_checks_body sample_collaborators sample_act_result (sample_task 1)
       (agent_start (fresh_world\<lparr>browser_works := False\<rparr>)) =
     (Inl (PyExc ''Error'' ''browser executable not found''),
      agent_start (fresh_world\<lparr>browser_works := False\<rparr>))"
  by code_simp

theorem review_phase_evaluation_exception_witness:
  "quality_checks_body sample_collaborators sample_act_result (sample_task 1)
       (agent_start (fresh_world\<lparr>browser_works := False\<rparr>)) =
     (Inl (PyExc ''Error'' ''browser executable not found''),
      agent_start (fresh_world\<lparr>browser_works := False\<rparr>))
   \<and> fst (review_phase sample_collaborators (sample_task 1) sample_act_result
        (agent_start (fresh_world\<lparr>browser_works := False\<rparr>))) =
       Inr \<lparr>report_task_id = ''t1'', report_status = ''completed'',
            report_deployment = \<lparr>repo_url = ''https://github.com/u/t1'', commit_sha = ''c1'',
                                  pages_url = ''https://u.github.io/t1/''\<rparr>,
            quality_score = 1 / 2, report_checks_passed = [],
            report_checks_failed = [''js: true'', ''has a title''],
            report_recommendations = [''Evaluation error: browser executable not found''],
            completed_at = ''2025-01-01T00:00:00+00:00''\<rparr>"
proof -
  have now: "utc_now_iso sample_collaborators w = (''2025-01-01T00:00:00+00:00'', w)" for w
    by (simp add: sample_collaborators_def)
  note h = sample_review_browser_down
  from review_phase_evaluation_exception [THEN conjunct1, rule_format, OF h]
  have "fst (review_phase sample_collaborators (sample_task 1) sample_act_result
        (agent_start (fresh_world\<lparr>browser_works := False\<rparr>))) =
       Inr \<lparr>report_task_id = task_id (sample_task 1), report_status = ''completed'',
            report_deployment = act_deployment sample_act_result, quality_score = 1 / 2,
            report_checks_passed = [], report_checks_failed = checks (sample_task 1),
            report_recommendations =
              [''Evaluation error: '' @ exc_str (PyExc ''Error'' ''browser executable not found'')],
            completed_at = ''2025-01-01T00:00:00+00:00''\<rparr>"
    by (simp add: now)
  then show ?thesis
    using h by (simp add: sample_task_def sample_act_result_def)
qed

lemma sample_act_deploy_fails:
  "act_phase sample_collaborators (sample_task 1) JNull
       (agent_start (fresh_world\<lparr>deploy_works := False\<rparr>)) =
     (Inl (PyExc ''ValueError'' ''GitHub integration not available''),
      \<lparr>outside = fresh_world\<lparr>uuids := 1, deploy_works := False\<rparr>,
       dirs = {}, workspaces = {}, cleanup_log = [''/tmp/workspace_w0''], update_log = []\<rparr>)"
  by code_simp

lemma sample_act_succeeds:
  "act_phase sample_collaborators (sample_task 1) JNull (agent_start fresh_world) =
     (Inr sample_act_result,
      \<lparr>outside = fresh_world
         \<lparr>uuids := 1,
          repos := [(''https://github.com/u/t1'',
                     [(''index.html'', ''<h1>v1</h1>''), (''style.css'', ''h1{}''),
                      (''script.js'', ''v1()''), (''LICENSE'', ''MIT License''),
                      (''README.md'', ''readme of t1'')])]\<rparr>,
       dirs = {}, workspaces = {}, cleanup_log = [''/tmp/workspace_w0''], update_log = []\<rparr>)"
  by code_simp

lemma sample_act_rmtree_fails:
  "act_phase sample_collaborators (sample_task 1) JNull
       (agent_start (fresh_world\<lparr>rmtree_works := False\<rparr>)) =
     (Inr sample_act_result,
      \<lparr>outside = fresh_world
         \<lparr>uuids := 1,
          repos := [(''https://github.com/u/t1'',
                     [(''index.html'', ''<h1>v1</h1>''), (''style.css'', ''h1{}''),
                      (''script.js'', ''v1()''), (''LICENSE'', ''MIT License''),
                      (''README.md'', ''readme of t1'')])],
          rmtree_works := False\<rparr>,
       dirs = {''/tmp/workspace_w0''}, workspaces = {''/tmp/workspace_w0''},
       cleanup_log = [''/tmp/workspace_w0''], update_log = []\<rparr>)"
  by code_simp

lemma sample_act_both_fail:
  "act_phase sample_collaborators (sample_task 1) JNull
       (agent_start (fresh_world\<lparr>rmtree_works := False, deploy_works := False\<rparr>)) =
     (Inl (PyExc ''ValueError'' ''GitHub integration not available''),
      \<lparr>outside = fresh_world\<lparr>uuids := 1, rmtree_works := False, deploy_works := False\<rparr>,
       dirs = {''/tmp/workspace_w0''}, workspaces = {''/tmp/workspace_w0''},
       cleanup_log = [''/tmp/workspace_w0''], update_log = []\<rparr>)"
  by code_simp

lemma sample_uuid4: "uuid4 sample_collaborators w = (''w'' @ str_of_nat (uuids w), w\<lparr>uuids := Suc (uuids w)\<rparr>)"
  by (simp add: sample_collaborators_def)

lemma sample_rmtree_error:
  "rmtree_error sample_collaborators p w =
     (if rmtree_works w then None
      else Some (PyExc ''PermissionError'' ''[WinError 5] Access is denied''))"
  by (simp add: sample_collaborators_def)

theorem act_phase_cleanup_exactly_once_witness:
  "rmtree_error sample_collaborators ''/tmp/workspace_w0''
       (outside (snd (act_phase sample_collaborators (sample_task 1) JNull
          (agent_start (fresh_world\<lparr>deploy_works := False\<rparr>))))) = None
   \<and> isl (fst (act_phase sample_collaborators (sample_task 1) JNull
        (agent_start (fresh_world\<lparr>deploy_works := False\<rparr>))))
   \<and> cleanup_log (snd (act_phase sample_collaborators (sample_task 1) JNull
        (agent_start (fresh_world\<lparr>deploy_works := False\<rparr>)))) = [''/tmp/workspace_w0'']
   \<and> ''/tmp/workspace_w0'' \<notin> dirs (snd (act_phase sample_collaborators (sample_task 1) JNull
        (agent_start (fresh_world\<lparr>deploy_works := False\<rparr>))))
   \<and> rmtree_error sample_collaborators ''/tmp/workspace_w0''
       (outside (snd (act_phase sample_collaborators (sample_task 1) JNull
          (agent_start fresh_world)))) = None
   \<and> fst (act_phase sample_collaborators (sample_task 1) JNull (agent_start fresh_world))
       = Inr sample_act_result
   \<and> cleanup_log (snd (act_phase sample_collaborators (sample_task 1) JNull
        (agent_start fresh_world))) = [''/tmp/workspace_w0'']
   \<and> ''/tmp/workspace_w0'' \<notin> dirs (snd (act_phase sample_collaborators (sample_task 1) JNull
        (agent_start fresh_world)))"
  using act_phase_cleanup_exactly_once [where C = sample_collaborators
      and s = "agent_start (fresh_world\<lparr>deploy_works := False\<rparr>)" and task = "sample_task 1"
      and plan = JNull]
    act_phase_cleanup_exactly_once [where C = sample_collaborators
      and s = "agent_start fresh_world" and task = "sample_task 1" and plan = JNull]
  unfolding sample_act_deploy_fails sample_act_succeeds
  by (simp add: sample_uuid4 sample_rmtree_error agent_start_def fresh_world_def str_of_nat_0)

text \<open>
  Claim C8 as first stated promises that no workspace directory remains in any case. When
  \<^verbatim>\<open>shutil.rmtree\<close> fails, \<open>cleanup_workspace\<close> logs the failure and returns: the Act
  phase succeeds, the cleanup has run once, and the directory is still there.
\<close>

theorem act_phase_orphaned_workspace_counterexample:
  "''/tmp/workspace_w0'' \<notin> dirs (agent_start (fresh_world\<lparr>rmtree_works := False\<rparr>))
   \<and> fst (act_phase sample_collaborators (sample_task 1) JNull
        (agent_start (fresh_world\<lparr>rmtree_works := False\<rparr>))) = Inr sample_act_result
   \<and> cleanup_log (snd (act_phase sample_collaborators (sample_task 1) JNull
        (agent_start (fresh_world\<lparr>rmtree_works := False\<rparr>)))) = [''/tmp/workspace_w0'']
   \<and> ''/tmp/workspace_w0'' \<in> dirs (snd (act_phase sample_collaborators (sample_task 1) JNull
        (agent_start (fresh_world\<lparr>rmtree_works := False\<rparr>))))"
  unfolding sample_act_rmtree_fails
  by (simp add: agent_start_def)

text \<open>
  Claim C10. \<open>cleanup_workspace\<close> returns normally for every path and every state; so the
  outcome of the Act phase, and of round-2 processing, is the outcome of the body of its
  \<^verbatim>\<open>try\<close> statement, value or exception, never one of the \<^verbatim>\<open>finally\<close> block. A removal
  that fails leaves the directory in place.
\<close>

theorem cleanup_workspace_never_raises:
  "fst (cleanup_workspace C workspace_path s) = Inr ()
   \<and> (case uuid4 C (outside s) of
        (ws_id, w) \<Rightarrow>
          fst (act_phase C task plan s) =
            fst (act_phase_body C task ws_id (''/tmp/workspace_'' @ ws_id) (s\<lparr>outside := w\<rparr>))
          \<and> fst (process_round2_task C task existing_repo_url s) =
              fst (round2_body C task existing_repo_url ws_id (''/tmp/workspace_'' @ ws_id)
                     (s\<lparr>outside := w\<rparr>)))
   \<and> (workspace_path \<in> dirs s \<and> rmtree_error C workspace_path (outside s) = Some e \<longrightarrow>
        workspace_path \<in> dirs (snd (cleanup_workspace C workspace_path s)))"
proof (intro conjI impI)
  show "fst (cleanup_workspace C workspace_path s) = Inr ()"
    by (rule cleanup_workspace_returns)
  show "case uuid4 C (outside s) of
        (ws_id, w) \<Rightarrow>
          fst (act_phase C task plan s) =
            fst (act_phase_body C task ws_id (''/tmp/workspace_'' @ ws_id) (s\<lparr>outside := w\<rparr>))
          \<and> fst (process_round2_task C task existing_repo_url s) =
              fst (round2_body C task existing_repo_url ws_id (''/tmp/workspace_'' @ ws_id)
                     (s\<lparr>outside := w\<rparr>))"
    by (simp add: act_phase_def process_round2_task_def try_finally_cleanup split: prod.splits)
  assume "workspace_path \<in> dirs s \<and> rmtree_error C workspace_path (outside s) = Some e"
  then show "workspace_path \<in> dirs (snd (cleanup_workspace C workspace_path s))"
    using cleanup_workspace_failed[of workspace_path s C e] by simp
qed

lemma sample_cleanup_fails:
  "cleanup_workspace sample_collaborators ''/tmp/workspace_w0''
       \<lparr>outside = fresh_world\<lparr>rmtree_works := False\<rparr>, dirs = {''/tmp/workspace_w0''},
        workspaces = {''/tmp/workspace_w0''}, cleanup_log = [], update_log = []\<rparr> =
     (Inr (),
      \<lparr>outside = fresh_world\<lparr>rmtree_works := False\<rparr>, dirs = {''/tmp/workspace_w0''},
       workspaces = {''/tmp/workspace_w0''}, cleanup_log = [''/tmp/workspace_w0''],
       update_log = []\<rparr>)"
  by code_simp

theorem cleanup_workspace_never_raises_witness:
  "''/tmp/workspace_w0'' \<in> dirs \<lparr>outside = fresh_world\<lparr>rmtree_works := False\<rparr>,
        dirs = {''/tmp/workspace_w0''}, workspaces = {''/tmp/workspace_w0''},
        cleanup_log = [], update_log = []\<rparr>
   \<and> rmtree_error sample_collaborators ''/tmp/workspace_w0'' (fresh_world\<lparr>rmtree_works := False\<rparr>)
        = Some (PyExc ''PermissionError'' ''[WinError 5] Access is denied'')
   \<and> fst (cleanup_workspace sample_collaborators ''/tmp/workspace_w0''
        \<lparr>outside = fresh_world\<lparr>rmtree_works := False\<rparr>, dirs = {''/tmp/workspace_w0''},
         workspaces = {''/tmp/workspace_w0''}, cleanup_log = [], update_log = []\<rparr>) = Inr ()
   \<and> ''/tmp/workspace_w0'' \<in> dirs (snd (cleanup_workspace sample_collaborators ''/tmp/workspace_w0''
        \<lparr>outside = fresh_world\<lparr>rmtree_works := False\<rparr>, dirs = {''/tmp/workspace_w0''},
         workspaces = {''/tmp/workspace_w0''}, cleanup_log = [], update_log = []\<rparr>))
   \<and> fst (act_phase sample_collaborators (sample_task 1) JNull
        (agent_start (fresh_world\<lparr>rmtree_works := False, deploy_works := False\<rparr>)))
       = Inl (PyExc ''ValueError'' ''GitHub integration not available'')"
  using cleanup_workspace_never_raises [where C = sample_collaborators
      and workspace_path = "''/tmp/workspace_w0''"
      and s = "\<lparr>outside = fresh_world\<lparr>rmtree_works := False\<rparr>, dirs = {''/tmp/workspace_w0''},
         workspaces = {''/tmp/workspace_w0''}, cleanup_log = [], update_log = []\<rparr>"
      and e = "PyExc ''PermissionError'' ''[WinError 5] Access is denied''"
      and task = "sample_task 1" and plan = JNull
      and existing_repo_url = "''https://github.com/u/t1''"]
  unfolding sample_cleanup_fails sample_act_both_fail
  by (simp add: sample_rmtree_error fresh_world_def)

end
